theory Spec2Isabelle
  imports Main "HOL-Library.Word" "HOL-Library.Sublist"
begin

section \<open>Common values\<close>

text \<open>
  Bytes are 8-bit words, a \<^verbatim>\<open>Uint8Array\<close> or \<^verbatim>\<open>Buffer\<close> is a list of them.
  JavaScript numbers that index bytes are modelled as \<^typ>\<open>int\<close> (fractions, NaN and
  infinities are left out), an optional parameter as an \<^typ>\<open>int option\<close> where
  \<^const>\<open>None\<close> is \<^verbatim>\<open>undefined\<close>.
  A thrown or rejected \<^verbatim>\<open>Error\<close> is a value: its \<^verbatim>\<open>name\<close> and its \<^verbatim>\<open>message\<close>.
  Errors of the platform (Node's file system, the HTTP transport) carry the platform's
  error code as message.
\<close>

type_synonym bytes = "8 word list"

datatype error = JsError (name: string) (message: string)

text \<open>\<^verbatim>\<open>new Error(msg)\<close> and \<^verbatim>\<open>Error(msg)\<close>: the name is \<^verbatim>\<open>Error\<close>.\<close>

definition Error :: "string \<Rightarrow> error" where
  "Error msg = JsError ''Error'' msg"

text \<open>Truthiness of an optional number and of an optional string.\<close>

definition truthyNum :: "int option \<Rightarrow> bool" where
  "truthyNum v = (case v of None \<Rightarrow> False | Some n \<Rightarrow> n \<noteq> 0)"

definition truthyStr :: "string option \<Rightarrow> bool" where
  "truthyStr v = (case v of None \<Rightarrow> False | Some s \<Rightarrow> s \<noteq> [])"

text \<open>Decimal rendering of an integer, as a template literal \<^verbatim>\<open>`${n}`\<close> renders it.\<close>

fun showNat :: "nat \<Rightarrow> string" where
  "showNat n =
     (if n < 10 then [''0123456789'' ! n]
      else showNat (n div 10) @ [''0123456789'' ! (n mod 10)])"

declare showNat.simps [simp del]


section \<open>Chunkers (lib/tdf3/src/utils/chunkers.ts)\<close>

subsection \<open>The platform: typed-array slices, files, HTTP\<close>

text \<open>
  \<^verbatim>\<open>TypedArray.prototype.slice(start, end)\<close> (and \<^verbatim>\<open>Blob.slice\<close>, which clamps the same
  way): a negative index counts from the end, every index is clamped to the length, an
  absent start is 0 and an absent end is the length.
\<close>

definition relativeIndex :: "nat \<Rightarrow> int \<Rightarrow> nat" where
  "relativeIndex len i = (if i < 0 then nat (max (int len + i) 0) else min (nat i) len)"

definition slice :: "'a list \<Rightarrow> int option \<Rightarrow> int option \<Rightarrow> 'a list" where
  "slice xs byteStart byteEnd =
     (let len = length xs;
          k = (case byteStart of None \<Rightarrow> 0 | Some i \<Rightarrow> relativeIndex len i);
          final = (case byteEnd of None \<Rightarrow> len | Some j \<Rightarrow> relativeIndex len j)
      in take (final - k) (drop k xs))"

text \<open>
  The world a chunker reads: the files by path, the remote server, and the log of the
  HTTP requests issued so far (URL and \<^verbatim>\<open>Range\<close> header, if any). The server answers a
  request with an error (a status that axios rejects, a network failure) or with a
  response whose \<^verbatim>\<open>data\<close> may be missing; its answer may depend on the requests seen
  before, so that a failure can be transient.
\<close>

type_synonym request = "string \<times> string option"

record world =
  files :: "string \<rightharpoonup> bytes"
  remote :: "request list \<Rightarrow> request \<Rightarrow> error + bytes option"
  requests :: "request list"

text \<open>
  A \<^verbatim>\<open>Chunker\<close> is \<^verbatim>\<open>(byteStart?: number, byteEnd?: number) => Promise<Uint8Array>\<close>:
  here a function of the two optional bounds and the world, returning the settled
  promise (\<^const>\<open>Inl\<close> a rejection or a throw) and the world after the call.
\<close>

type_synonym chunker = "int option \<Rightarrow> int option \<Rightarrow> world \<Rightarrow> (error + bytes) \<times> world"

text \<open>Node's \<^verbatim>\<open>fs\<close>: a missing file fails with \<^verbatim>\<open>ENOENT\<close>.\<close>

definition statSync_size :: "world \<Rightarrow> string \<Rightarrow> error + nat" where
  "statSync_size w filePath =
     (case files w filePath of None \<Rightarrow> Inl (Error ''ENOENT'') | Some content \<Rightarrow> Inr (length content))"

definition readFile :: "world \<Rightarrow> string \<Rightarrow> error + bytes" where
  "readFile w filePath =
     (case files w filePath of None \<Rightarrow> Inl (Error ''ENOENT'') | Some content \<Rightarrow> Inr content)"

text \<open>
  \<^verbatim>\<open>createReadStream(path, {start, end})\<close> reads the bytes from \<^verbatim>\<open>start\<close> to \<^verbatim>\<open>end\<close>,
  both inclusive, stopping at the end of the file; an absent \<^verbatim>\<open>end\<close> is infinity.
  Node validates the options when the stream is created: \<^verbatim>\<open>start\<close> and \<^verbatim>\<open>end\<close> must not
  be negative and \<^verbatim>\<open>start\<close> must not be greater than \<^verbatim>\<open>end\<close>
  (a \<^verbatim>\<open>RangeError\<close> with code \<^verbatim>\<open>ERR_OUT_OF_RANGE\<close>). The result here is the whole of
  what the stream delivers, concatenated.
\<close>

definition createReadStream :: "world \<Rightarrow> string \<Rightarrow> int \<Rightarrow> int option \<Rightarrow> error + bytes" where
  "createReadStream w filePath start endOpt =
     (if start < 0 then Inl (JsError ''RangeError'' ''ERR_OUT_OF_RANGE'')
      else if (case endOpt of None \<Rightarrow> False | Some e \<Rightarrow> e < 0 \<or> start > e)
        then Inl (JsError ''RangeError'' ''ERR_OUT_OF_RANGE'')
      else (case files w filePath of
              None \<Rightarrow> Inl (Error ''ENOENT'')
            | Some content \<Rightarrow>
                Inr (case endOpt of
                       None \<Rightarrow> drop (nat start) content
                     | Some e \<Rightarrow> take (nat (e + 1 - start)) (drop (nat start) content))))"


subsection \<open>The chunkers\<close>


definition fromBuffer :: "bytes \<Rightarrow> chunker" where
  "fromBuffer buffer = (\<lambda>byteStart byteEnd w. (Inr (slice buffer byteStart byteEnd), w))"

text \<open>
  The function that \<^verbatim>\<open>fromNodeFile\<close> returns, for the \<^verbatim>\<open>fileSize\<close> it read with
  \<^verbatim>\<open>statSync\<close> when the chunker was made. \<^verbatim>\<open>byteStart || 0\<close> makes an absent start 0;
  \<^verbatim>\<open>!start && !end\<close> holds when the start is 0 and the end is absent or 0;
  \<^verbatim>\<open>if (byteEnd)\<close> skips an end that is absent or 0, which then stays as it was given.
\<close>

definition nodeFileRead :: "nat \<Rightarrow> string \<Rightarrow> chunker" where
  "nodeFileRead fileSize filePath = (\<lambda>byteStart byteEnd w.
     let start = (case byteStart of None \<Rightarrow> 0 | Some s \<Rightarrow> s);
         endOpt = byteEnd
     in if start = 0 \<and> \<not> truthyNum endOpt then (readFile w filePath, w)
        else
          let start = (if start < 0 then max 0 (int fileSize - abs start) else start);
              endOpt = (case byteEnd of
                       None \<Rightarrow> endOpt
                     | Some b \<Rightarrow>
                         if b = 0 then endOpt
                         else if b < 0 then Some (int fileSize + b - 1)
                         else Some (b - 1))
          in (createReadStream w filePath start endOpt, w))"

definition fromNodeFile :: "world \<Rightarrow> string \<Rightarrow> error + chunker" where
  "fromNodeFile w filePath =
     (case statSync_size w filePath of
        Inl e \<Rightarrow> Inl e
      | Inr fileSize \<Rightarrow> Inr (nodeFileRead fileSize filePath))"



subsection \<open>Streams and data sources\<close>

text \<open>
  A \<^verbatim>\<open>ReadableStream<Uint8Array>\<close> delivers its chunks once, in order, and then closes or
  fails. \<^verbatim>\<open>new Response(stream).arrayBuffer()\<close> gives the concatenation of the chunks, or
  the failure of the stream.
\<close>

record ReadableStream =
  chunks :: "bytes list"
  failure :: "error option"

definition streamToBuffer :: "ReadableStream \<Rightarrow> error + bytes" where
  "streamToBuffer s = (case failure s of Some e \<Rightarrow> Inl e | None \<Rightarrow> Inr (concat (chunks s)))"

text \<open>
  The class \<^verbatim>\<open>DecoratedReadableStream\<close>, with the fields that are plain data (the manifest,
  the metadata and the upsert response have types that are declared elsewhere).
\<close>

record DecoratedReadableStream =
  policyUuid :: "string option"
  stream :: ReadableStream
  contentLength :: "nat option"
  fileStreamServiceWorker :: "string option"


text \<open>
  What a \<^verbatim>\<open>location\<close> can be at run time, as far as the checks of \<^verbatim>\<open>fromDataSource\<close> tell
  values apart (\<^verbatim>\<open>instanceof Uint8Array\<close>, \<^verbatim>\<open>instanceof Function\<close>, \<^verbatim>\<open>instanceof Blob\<close>,
  \<^verbatim>\<open>typeof\<close> string, \<^verbatim>\<open>isDecoratedReadableStream\<close>); \<open>OtherLoc\<close> passes none of them.
\<close>

datatype location =
    Uint8ArrayLoc bytes
  | FunctionLoc chunker
  | BlobLoc bytes
  | StringLoc string
  | StreamLoc DecoratedReadableStream
  | OtherLoc

record DataSource =
  type :: string
  location :: location


text \<open>A world for the examples: one local file, a server that answers every request.\<close>

definition exampleWorld :: world where
  "exampleWorld =
     \<lparr>files = [''payload.bin'' \<mapsto> [1, 2, 3]],
      remote = (\<lambda>history rq. Inr (Some [1, 2, 3])),
      requests = []\<rparr>"

section \<open>The client (tdf3/src/client/index.ts)\<close>

subsection \<open>Data\<close>

record PemKeyPair =
  publicKey :: string
  privateKey :: string

record SessionKeys =
  keypair :: PemKeyPair
  signingKeys :: "string option"

text \<open>
  An auth provider is one the caller passes in (an \<^verbatim>\<open>AuthProvider\<close> or an
  \<^verbatim>\<open>AppIdAuthProvider\<close>, told apart by \<^verbatim>\<open>isAppIdProviderCheck\<close>) or one of the two OIDC
  providers the constructor makes from client id, token and origin.
\<close>

datatype AuthProvider =
    CustomAuthProvider string
  | AppIdAuthProvider string
  | OIDCRefreshTokenProvider string string "string option"
  | OIDCExternalJwtProvider string string "string option"

definition isAppIdProviderCheck :: "AuthProvider \<Rightarrow> bool" where
  "isAppIdProviderCheck p = (case p of AppIdAuthProvider _ \<Rightarrow> True | _ \<Rightarrow> False)"

text \<open>
  \<^verbatim>\<open>ClientConfig\<close>, every field optional. The fields that neither the constructor nor
  \<^verbatim>\<open>encrypt\<close> reads (\<^verbatim>\<open>organizationName\<close>, \<^verbatim>\<open>keyUpsertEndpoint\<close>,
  \<^verbatim>\<open>fileStreamServiceWorker\<close>, \<^verbatim>\<open>progressHandler\<close>) are left out.
\<close>

record ClientConfig =
  keypair :: "PemKeyPair option"
  clientId :: "string option"
  dpopEnabled :: "bool option"
  kasEndpoint :: "string option"
  easEndpoint :: "string option"
  keyRewrapEndpoint :: "string option"
  clientSecret :: "string option"
  refreshToken :: "string option"
  kasPublicKey :: "string option"
  oidcOrigin :: "string option"
  externalJwt :: "string option"
  authProvider :: "AuthProvider option"
  readerUrl :: "string option"
  entityObjectEndpoint :: "string option"

record EAS =
  authProvider :: AuthProvider
  endpoint :: string

text \<open>
  A \<^verbatim>\<open>Client\<close>. The two promises \<^verbatim>\<open>sessionKeys\<close> and \<^verbatim>\<open>kasPublicKey\<close> are held as what
  they settle to: \<^const>\<open>Inl\<close> a rejection, \<^const>\<open>Inr\<close> the value.
\<close>

record Client =
  kasEndpoint :: string
  kasPublicKey :: "error + string"
  clientId :: "string option"
  authProvider :: "AuthProvider option"
  readerUrl :: "string option"
  sessionKeys :: "error + SessionKeys"
  eas :: "EAS option"
  dpopEnabled :: bool
  clientConfig :: ClientConfig

record PolicyBody =
  dataAttributes :: "string list"
  dissem :: "string list"

record Policy =
  uuid :: string
  body :: PolicyBody

record Scope =
  policyObject :: "Policy option"
  policyId :: "string option"
  attributes :: "string list option"
  dissem :: "string list option"

text \<open>
  \<^verbatim>\<open>EncryptParams\<close> as \<^verbatim>\<open>encrypt\<close> destructures it (\<^verbatim>\<open>output\<close>, which the body never reads,
  is left out). Of \<^verbatim>\<open>rcaSource\<close>, whose type is declared elsewhere, the code tests only
  the truthiness: the field says whether a truthy value was passed.
\<close>

record EncryptParams =
  scope :: "Scope option"
  source :: ReadableStream
  asHtml :: "bool option"
  metadata :: "string option"
  mimeType :: "string option"
  offline :: "bool option"
  rcaSource :: bool
  windowSize :: "nat option"
  eo :: "string option"
  payloadKey :: "bytes option"

text \<open>The argument of \<^verbatim>\<open>addKeyAccess\<close>.\<close>

record KeyAccessParams =
  type :: string
  url :: string
  publicKey :: string
  metadata :: "string option"

text \<open>
  Modelled from the spec: the class \<^verbatim>\<open>TDF\<close> (\<^verbatim>\<open>../tdf.js\<close>) is not in the sources. Its
  builder is the record of what the setters were given; \<^verbatim>\<open>addKeyAccess\<close> adds one entry
  to the key-access array ("accepts the policy, payload key, and one or more KAS targets;
  emits the KAO array").
\<close>

record TDF =
  privateKey :: string
  publicKey :: string
  encryptionType :: string
  cipher :: string
  segmentSizeDefault :: nat
  integrityAlgorithm :: string
  segmentIntegrityAlgorithm :: string
  contentStream :: "ReadableStream option"
  mimeType :: "string option"
  policy :: "Policy option"
  authProvider :: "AuthProvider option"
  entity :: "string option"
  keyAccess :: "KeyAccessParams list"

definition TDF_create :: TDF where
  "TDF_create =
     \<lparr>TDF.privateKey = [], publicKey = [], encryptionType = [], cipher = [],
      segmentSizeDefault = 0, integrityAlgorithm = [], segmentIntegrityAlgorithm = [],
      contentStream = None, mimeType = None, policy = None, authProvider = None,
      entity = None, keyAccess = []\<rparr>"

definition addKeyAccess :: "TDF \<Rightarrow> KeyAccessParams \<Rightarrow> TDF" where
  "addKeyAccess tdf ka = tdf\<lparr>keyAccess := keyAccess tdf @ [ka]\<rparr>"

text \<open>
  What the client takes from outside: key generation, the auth server behind
  \<^verbatim>\<open>updateClientPublicKey\<close> (\<^const>\<open>Some\<close> a failure), the KAS behind
  \<^verbatim>\<open>TDF.getPublicKeyFromKeyAccessServer\<close>, the base64 encoder, the random UUID of \<^verbatim>\<open>v4()\<close>,
  and the stream that the writer produces from a builder.
\<close>

record platform =
  generateKeyPair :: "error + PemKeyPair"
  generateSigningKeys :: "error + string"
  updateClientPublicKey :: "AuthProvider \<Rightarrow> string \<Rightarrow> string option \<Rightarrow> error option"
  getPublicKeyFromKeyAccessServer :: "string \<Rightarrow> error + string"
  base64_encode :: "string \<Rightarrow> string"
  v4 :: string
  tdfOutput :: "TDF \<Rightarrow> DecoratedReadableStream"

text \<open>
  Modelled from the spec: \<^verbatim>\<open>TDF.writeStream\<close> is not in the sources. "The writer fails if
  the plaintext size exceeds the configured byte limit"; the spec does not give the error,
  which is taken here to be a plain \<^verbatim>\<open>Error\<close>. A content stream that fails makes the write
  fail as well.
\<close>

definition writeStream ::
  "platform \<Rightarrow> TDF \<Rightarrow> nat \<Rightarrow> bool \<Rightarrow> bytes option \<Rightarrow> error + DecoratedReadableStream" where
  "writeStream pf tdf byteLimit isRcaSource key =
     (case contentStream tdf of
        None \<Rightarrow> Inl (Error ''no content stream'')
      | Some content \<Rightarrow>
          (case streamToBuffer content of
             Inl e \<Rightarrow> Inl e
           | Inr plaintext \<Rightarrow>
               if length plaintext > byteLimit then Inl (Error ''byte limit exceeded'')
               else Inr (tdfOutput pf tdf)))"

subsection \<open>Constants\<close>

definition GLOBAL_BYTE_LIMIT :: nat where
  "GLOBAL_BYTE_LIMIT = 64 * 1000 * 1000 * 1000"

definition HTML_BYTE_LIMIT :: nat where
  "HTML_BYTE_LIMIT = 100 * 1000 * 1000"

text \<open>
  Modelled from the spec: \<^verbatim>\<open>DEFAULT_SEGMENT_SIZE\<close> is declared in \<^verbatim>\<open>./builders.js\<close>, which
  is not in the sources. The doc comment of \<^verbatim>\<open>encrypt\<close> says that the segment size
  "defaults to a million bytes", the spec "default 1,000,000 bytes".
\<close>

definition DEFAULT_SEGMENT_SIZE :: nat where
  "DEFAULT_SEGMENT_SIZE = 1000 * 1000"

subsection \<open>Session keys and the KAS public key\<close>

text \<open>What the client does to the outside, in the order in which it starts it.\<close>

datatype effect =
    GenerateKeyPair
  | GenerateSigningKeys
  | UpdateClientPublicKey AuthProvider string "string option"
  | GetPublicKeyFromKeyAccessServer string

definition createSessionKeys ::
  "platform \<Rightarrow> AuthProvider option \<Rightarrow> bool \<Rightarrow> PemKeyPair option
     \<Rightarrow> (error + SessionKeys) \<times> effect list" where
  "createSessionKeys pf authProv dpop kp =
     (let (k2r, fx1) = (case kp of
                          Some k \<Rightarrow> (Inr k, [])
                        | None \<Rightarrow> (generateKeyPair pf, [GenerateKeyPair]))
      in case k2r of
           Inl e \<Rightarrow> (Inl e, fx1)
         | Inr k2 \<Rightarrow>
             let (skr, fx2) = (if dpop
                                then (map_sum id Some (generateSigningKeys pf), fx1 @ [GenerateSigningKeys])
                                else (Inr None, fx1))
             in case skr of
                  Inl e \<Rightarrow> (Inl e, fx2)
                | Inr sk \<Rightarrow>
                    (case authProv of
                       None \<Rightarrow> (Inr \<lparr>SessionKeys.keypair = k2, signingKeys = sk\<rparr>, fx2)
                     | Some ap \<Rightarrow>
                         if isAppIdProviderCheck ap
                           then (Inr \<lparr>SessionKeys.keypair = k2, signingKeys = sk\<rparr>, fx2)
                         else
                           let encoded = base64_encode pf (PemKeyPair.publicKey k2);
                               fx3 = fx2 @ [UpdateClientPublicKey ap encoded sk]
                           in case updateClientPublicKey pf ap encoded sk of
                                Some e \<Rightarrow> (Inl e, fx3)
                              | None \<Rightarrow> (Inr \<lparr>SessionKeys.keypair = k2, signingKeys = sk\<rparr>, fx3)))"

text \<open>\<^verbatim>\<open>${e}\<close> renders an error as its name, a colon and its message.\<close>

definition showError :: "error \<Rightarrow> string" where
  "showError e = name e @ '': '' @ message e"

definition fetchKasPubKey :: "platform \<Rightarrow> string \<Rightarrow> (error + string) \<times> effect list" where
  "fetchKasPubKey pf kas =
     (if kas = [] then (Inl (JsError ''TdfError'' ''KAS definition not found''), [])
      else (case getPublicKeyFromKeyAccessServer pf kas of
              Inr k \<Rightarrow> (Inr k, [GetPublicKeyFromKeyAccessServer kas])
            | Inl e \<Rightarrow>
                (Inl (JsError ''TdfError''
                        (''Retrieving KAS public key ['' @ kas @ ''] failed ['' @ showError e @ '']'')),
                 [GetPublicKeyFromKeyAccessServer kas])))"

subsection \<open>The constructor\<close>

text \<open>
  \<^verbatim>\<open>s.replace(/\/rewrap$/, '')\<close>: the search tries every position from the left; the
  pattern matches at a position when what is left of the string from there is exactly
  \<^verbatim>\<open>/rewrap\<close>; the match is replaced by the empty string.
\<close>

fun replaceRewrap :: "string \<Rightarrow> string" where
  "replaceRewrap [] = []"
| "replaceRewrap (c # cs) = (if c # cs = ''/rewrap'' then [] else c # replaceRewrap cs)"

text \<open>
  \<^verbatim>\<open>new Client(config)\<close>: the instance or the error thrown, and the effects started.
  \<^verbatim>\<open>{...defaultClientConfig, ...config}\<close> gives \<^verbatim>\<open>oidcOrigin\<close> the default \<^verbatim>\<open>''\<close>.
\<close>

definition Client_constructor :: "platform \<Rightarrow> ClientConfig \<Rightarrow> (error + Client) \<times> effect list" where
  "Client_constructor pf config =
     (let cc = config\<lparr>oidcOrigin := (case ClientConfig.oidcOrigin config of
                                          None \<Rightarrow> Some [] | Some x \<Rightarrow> Some x)\<rparr>;
          dpop = (ClientConfig.dpopEnabled cc = Some True);
          reader = (if truthyStr (ClientConfig.readerUrl cc) then ClientConfig.readerUrl cc else None)
      in if \<not> truthyStr (ClientConfig.kasEndpoint cc) \<and> \<not> truthyStr (keyRewrapEndpoint cc)
           then (Inl (Error ''KAS definition not found''), [])
         else
           let kas = (if truthyStr (ClientConfig.kasEndpoint cc) then the (ClientConfig.kasEndpoint cc)
                      else replaceRewrap (the (keyRewrapEndpoint cc)));
               given = ClientConfig.authProvider config;
               easObj = (case given of
                           None \<Rightarrow> None
                         | Some ap \<Rightarrow>
                             if isAppIdProviderCheck ap
                               then Some \<lparr>EAS.authProvider = ap,
                                          endpoint = (if truthyStr (entityObjectEndpoint cc)
                                                      then the (entityObjectEndpoint cc)
                                                      else (case easEndpoint cc of
                                                              None \<Rightarrow> ''undefined'' | Some e \<Rightarrow> e)
                                                           @ ''/api/entityobject'')\<rparr>
                             else None)
           in if given = None \<and> \<not> truthyStr (ClientConfig.clientId cc)
                then (Inl (Error ''Client ID or custom AuthProvider must be defined''), [])
              else if given = None \<and> truthyStr (clientSecret cc)
                then (Inl (Error ''Client credentials not supported in a browser context''), [])
              else
                let ap = (case given of
                            Some p \<Rightarrow> Some p
                          | None \<Rightarrow>
                              if truthyStr (refreshToken cc)
                                then Some (OIDCRefreshTokenProvider (the (ClientConfig.clientId cc))
                                             (the (refreshToken cc)) (ClientConfig.oidcOrigin cc))
                              else if truthyStr (externalJwt cc)
                                then Some (OIDCExternalJwtProvider (the (ClientConfig.clientId cc))
                                             (the (externalJwt cc)) (ClientConfig.oidcOrigin cc))
                              else None);
                    (sk, fx1) = (case ClientConfig.keypair cc of
                                   Some kp \<Rightarrow> (Inr \<lparr>SessionKeys.keypair = kp, signingKeys = None\<rparr>, [])
                                 | None \<Rightarrow> createSessionKeys pf ap dpop (ClientConfig.keypair cc));
                    (kpk, fx2) = (if truthyStr (ClientConfig.kasPublicKey cc)
                                    then (Inr (the (ClientConfig.kasPublicKey cc)), [])
                                  else fetchKasPubKey pf kas)
                in (Inr \<lparr>Client.kasEndpoint = kas, kasPublicKey = kpk,
                          clientId = ClientConfig.clientId cc, authProvider = ap,
                          readerUrl = reader, sessionKeys = sk, eas = easObj,
                          dpopEnabled = dpop, clientConfig = cc\<rparr>,
                    fx1 @ fx2))"

subsection \<open>Encrypt\<close>

text \<open>
  What a call of \<^verbatim>\<open>encrypt\<close> does, step by step, after its guards: it awaits the session
  keys, awaits the KAS public key, builds the policy object, adds a key access to the
  builder and hands the byte limit, the RCA flag and the payload key to the writer.
\<close>

datatype encrypt_step =
    AwaitSessionKeys
  | AwaitKasPublicKey
  | CreatePolicyObject Policy
  | AddKeyAccess KeyAccessParams
  | WriteStream nat bool "bytes option"


text \<open>\<^verbatim>\<open>_createPolicyObject(scope)\<close>; an array, even an empty one, is truthy.\<close>

definition createPolicyObject :: "platform \<Rightarrow> Scope \<Rightarrow> Policy" where
  "createPolicyObject pf sc =
     (case policyObject sc of
        Some po \<Rightarrow> po
      | None \<Rightarrow>
          \<lparr>uuid = (if truthyStr (policyId sc) then the (policyId sc) else v4 pf),
           body = \<lparr>dataAttributes = (case attributes sc of None \<Rightarrow> [] | Some a \<Rightarrow> a),
                   dissem = (case Scope.dissem sc of None \<Rightarrow> [] | Some d \<Rightarrow> d)\<rparr>\<rparr>)"

text \<open>
  The builder chain of \<^verbatim>\<open>encrypt\<close>, from \<^verbatim>\<open>TDF.create()\<close> to \<^verbatim>\<open>setAuthProvider\<close>, and
  \<^verbatim>\<open>setEntity\<close> when an entity object is passed.
\<close>

definition encryptBuilder :: "Client \<Rightarrow> EncryptParams \<Rightarrow> SessionKeys \<Rightarrow> nat \<Rightarrow> Policy \<Rightarrow> TDF" where
  "encryptBuilder this params sk wsize policyObj =
     (let tdf = TDF_create
                  \<lparr>TDF.privateKey := PemKeyPair.privateKey (SessionKeys.keypair sk),
                   TDF.publicKey := PemKeyPair.publicKey (SessionKeys.keypair sk),
                   encryptionType := ''split'',
                   cipher := ''aes-256-gcm'',
                   segmentSizeDefault := wsize,
                   integrityAlgorithm := ''hs256'',
                   segmentIntegrityAlgorithm := ''gmac'',
                   contentStream := Some (source params),
                   TDF.mimeType := EncryptParams.mimeType params,
                   policy := Some policyObj,
                   TDF.authProvider := Client.authProvider this\<rparr>
      in case eo params of None \<Rightarrow> tdf | Some e \<Rightarrow> tdf\<lparr>entity := Some e\<rparr>)"

definition encrypt ::
  "platform \<Rightarrow> Client \<Rightarrow> EncryptParams \<Rightarrow> (error + DecoratedReadableStream) \<times> encrypt_step list" where
  "encrypt pf this params =
     (let sc = (case scope params of
                  None \<Rightarrow> \<lparr>policyObject = None, policyId = None,
                             attributes = Some [], dissem = Some []\<rparr>
                | Some x \<Rightarrow> x);
          html = (case asHtml params of None \<Rightarrow> False | Some b \<Rightarrow> b);
          off = (case offline params of None \<Rightarrow> False | Some b \<Rightarrow> b);
          wsize = (case windowSize params of None \<Rightarrow> DEFAULT_SEGMENT_SIZE | Some n \<Rightarrow> n);
          rca = rcaSource params
      in if html \<and> rca
           then (Inl (Error ''rca links should be used only with zip format''), [])
         else if html \<and> \<not> truthyStr (Client.readerUrl this)
           then (Inl (Error ''html container missing required parameter: [readerUrl]''), [])
         else if rca \<and> Client.kasEndpoint this = []
           then (Inl (Error ''rca links require a kasEndpoint url to be set''), [])
         else
           (case sessionKeys this of
              Inl e \<Rightarrow> (Inl e, [AwaitSessionKeys])
            | Inr sk \<Rightarrow>
                (case Client.kasPublicKey this of
                   Inl e \<Rightarrow> (Inl e, [AwaitSessionKeys, AwaitKasPublicKey])
                 | Inr kpk \<Rightarrow>
                     let policyObj = createPolicyObject pf sc;
                         tdf = encryptBuilder this params sk wsize policyObj;
                         ka = \<lparr>KeyAccessParams.type = (if off then ''wrapped'' else ''remote''),
                               url = Client.kasEndpoint this,
                               publicKey = kpk,
                               metadata = EncryptParams.metadata params\<rparr>;
                         tdf = addKeyAccess tdf ka;
                         byteLimit = (if html then HTML_BYTE_LIMIT else GLOBAL_BYTE_LIMIT);
                         steps = [AwaitSessionKeys, AwaitKasPublicKey, CreatePolicyObject policyObj,
                                  AddKeyAccess ka, WriteStream byteLimit rca (payloadKey params)]
                     in case writeStream pf tdf byteLimit rca (payloadKey params) of
                          Inl e \<Rightarrow> (Inl e, steps)
                        | Inr out \<Rightarrow>
                            (Inr (if rca then out\<lparr>policyUuid := Some (uuid policyObj)\<rparr> else out),
                             steps))))"

text \<open>A platform, a client and parameters for the examples.\<close>

definition examplePlatform :: platform where
  "examplePlatform =
     \<lparr>generateKeyPair = Inr \<lparr>PemKeyPair.publicKey = ''PUB'', privateKey = ''PRIV''\<rparr>,
      generateSigningKeys = Inr ''SIGN'',
      updateClientPublicKey = (\<lambda>ap k sk. None),
      getPublicKeyFromKeyAccessServer = (\<lambda>kas. Inr ''KASPUB''),
      base64_encode = (\<lambda>x. x),
      v4 = ''00000000-0000-4000-8000-000000000000'',
      tdfOutput = (\<lambda>tdf. \<lparr>policyUuid = None, stream = \<lparr>chunks = [], failure = None\<rparr>,
                             contentLength = None, fileStreamServiceWorker = None\<rparr>)\<rparr>"

definition exampleConfig :: ClientConfig where
  "exampleConfig =
     \<lparr>ClientConfig.keypair = None, clientId = Some ''dcr-test'', dpopEnabled = None,
      kasEndpoint = None, easEndpoint = None,
      keyRewrapEndpoint = Some ''http://localhost/api/kas/rewrap'',
      clientSecret = None, refreshToken = Some ''a.b.c'', kasPublicKey = None,
      oidcOrigin = Some ''http://localhost/auth/realms/tdf'', externalJwt = None,
      authProvider = None, readerUrl = Some ''https://reader.example/'',
      entityObjectEndpoint = None\<rparr>"

definition exampleParams :: "bool \<Rightarrow> bytes \<Rightarrow> EncryptParams" where
  "exampleParams html content =
     \<lparr>scope = None, source = \<lparr>chunks = [content], failure = None\<rparr>,
      asHtml = Some html, metadata = None, mimeType = None, offline = Some True,
      rcaSource = False, windowSize = None, eo = None, payloadKey = None\<rparr>"

definition exampleClient :: Client where
  "exampleClient =
     \<lparr>Client.kasEndpoint = ''http://localhost/api/kas'', kasPublicKey = Inr ''KASPUB'',
      clientId = Some ''dcr-test'',
      authProvider = Some (OIDCRefreshTokenProvider ''dcr-test'' ''a.b.c''
                             (Some ''http://localhost/auth/realms/tdf'')),
      readerUrl = Some ''https://reader.example/'',
      sessionKeys = Inr \<lparr>SessionKeys.keypair =
                             \<lparr>PemKeyPair.publicKey = ''PUB'', privateKey = ''PRIV''\<rparr>,
                         signingKeys = None\<rparr>,
      eas = None, dpopEnabled = False, clientConfig = exampleConfig\<rparr>"

section \<open>Multipart upload (the class Upload)\<close>

subsection \<open>Data\<close>

record RawDataPart =
  partNumber :: nat
  data :: bytes
  lastPart :: "bool option"

definition MIN_PART_SIZE :: nat where
  "MIN_PART_SIZE = 1024 * 1024 * 5"

text \<open>"S3 multipart upload does not allow more than 10000 parts."\<close>

definition MAX_PARTS :: nat where
  "MAX_PARTS = 10000"

text \<open>\<^verbatim>\<open>byteLength\<close>, for a body that is absent or an array of bytes.\<close>

definition byteLength :: "bytes option \<Rightarrow> nat" where
  "byteLength input = (case input of None \<Rightarrow> 0 | Some b \<Rightarrow> length b)"

text \<open>The output of an \<^verbatim>\<open>UploadPartCommand\<close>, and a part as the upload records it.\<close>

record PartResult =
  ETag :: "string option"
  ChecksumCRC32 :: "string option"
  ChecksumCRC32C :: "string option"
  ChecksumSHA1 :: "string option"
  ChecksumSHA256 :: "string option"

record CompletedPart =
  PartNumber :: nat
  ETag :: "string option"
  ChecksumCRC32 :: "string option"
  ChecksumCRC32C :: "string option"
  ChecksumSHA1 :: "string option"
  ChecksumSHA256 :: "string option"

record PutObjectCommandInput =
  Bucket :: "string option"
  Key :: "string option"
  Body :: "bytes option"

record Progress =
  loaded :: nat
  total :: nat
  part :: nat
  Key :: "string option"
  Bucket :: "string option"

text \<open>The commands that the upload sends to the S3 client, as a log keeps them.\<close>

datatype command =
    PutObjectCommand bytes
  | CreateMultipartUploadCommand
  | UploadPartCommand "string option" nat bytes
  | CompleteMultipartUploadCommand "string option" "CompletedPart list"
  | PutObjectTaggingCommand "(string \<times> string) list"

text \<open>
  What \<^verbatim>\<open>done()\<close> resolves with: the output of the completing command, or the result of
  the single \<^verbatim>\<open>PutObject\<close> with bucket and key (the \<^verbatim>\<open>Location\<close> string, built from the
  endpoint of the client, is left out), or \<^verbatim>\<open>undefined\<close> when \<^verbatim>\<open>singleUploadResult\<close> was
  never set.
\<close>

datatype uploadOutput =
    CompleteOutput string
  | PutOutput "string option" "string option" "string option"
  | Undefined

text \<open>
  The S3 client, as the answers it gives: \<^const>\<open>Inl\<close> a rejected \<^verbatim>\<open>send\<close>. The answer to
  a command is a function of the command.
\<close>

record S3Client =
  putObject :: "bytes \<Rightarrow> error + string option"
  createMultipartUpload :: "error + string option"
  uploadPart :: "string option \<Rightarrow> nat \<Rightarrow> bytes \<Rightarrow> error + PartResult"
  completeMultipartUpload :: "string option \<Rightarrow> CompletedPart list \<Rightarrow> error + string"
  putObjectTagging :: "error option"

text \<open>
  Where a call of \<^verbatim>\<open>__doConcurrentUpload\<close> is suspended: at the \<^verbatim>\<open>for await\<close> (with the
  part that the shared generator will give to this call of \<^verbatim>\<open>next()\<close>, if any), at the
  \<^verbatim>\<open>await\<close> of the single put, of the creation of the multipart upload, of the upload of
  a part; or it has returned (\<^const>\<open>None\<close>) or thrown.
\<close>

datatype pc =
    AwaitNext "RawDataPart option"
  | AwaitPut RawDataPart
  | AwaitCreate RawDataPart
  | AwaitPart RawDataPart
  | Finished "error option"

text \<open>Where \<^verbatim>\<open>__doMultipartUpload\<close> is suspended.\<close>

datatype mainpc =
    NotStarted
  | AwaitUploaders
  | AwaitComplete
  | AwaitTagging uploadOutput
  | Settled

text \<open>The options of the constructor.\<close>

record Options =
  queueSize :: "int option"
  partSize :: "nat option"
  leavePartsOnError :: "bool option"
  tags :: "(string \<times> string) list option"
  client :: "S3Client option"
  params :: "PutObjectCommandInput option"

text \<open>
  The fields of an \<^verbatim>\<open>Upload\<close>. The abort controller is its flag \<^verbatim>\<open>aborted\<close> and whether
  an \<^verbatim>\<open>onabort\<close> handler is set. Added for the model: the parts the generator of
  \<^verbatim>\<open>getChunk\<close> has still to give (\<open>feeder\<close>), the commands sent so far, the progress
  events emitted, the first rejection among the uploaders (what \<^verbatim>\<open>Promise.all\<close> rejects
  with), the place of \<^verbatim>\<open>__doMultipartUpload\<close>, and what the promise of \<^verbatim>\<open>done()\<close> has
  settled to, if it has.
\<close>

record Upload =
  queueSize :: int
  partSize :: nat
  leavePartsOnError :: bool
  tags :: "(string \<times> string) list"
  client :: S3Client
  params :: PutObjectCommandInput
  totalBytes :: nat
  bytesUploadedSoFar :: nat
  aborted :: bool
  onabort :: bool
  concurrentUploaders :: "pc list"
  createMultiPartPromise :: bool
  uploadedParts :: "CompletedPart list"
  uploadId :: "string option"
  uploadEvent :: "string option"
  isMultiPart :: bool
  singleUploadResult :: "uploadOutput option"
  feeder :: "RawDataPart list"
  sent :: "command list"
  emitted :: "Progress list"
  firstRejection :: "error option"
  mainpc :: mainpc
  doneResult :: "(error + uploadOutput) option"

subsection \<open>Construction and abort\<close>

text \<open>
  \<^verbatim>\<open>options.x || default\<close> takes the default for an absent, zero, false or (for the tags,
  which are an array and so truthy) absent value; then \<^verbatim>\<open>__validateInput\<close>.
\<close>

definition Upload_constructor :: "Options \<Rightarrow> error + Upload" where
  "Upload_constructor options =
     (let qs = (case Options.queueSize options of None \<Rightarrow> 4 | Some q \<Rightarrow> if q = 0 then 4 else q);
          ps = (case Options.partSize options of
                  None \<Rightarrow> MIN_PART_SIZE | Some n \<Rightarrow> if n = 0 then MIN_PART_SIZE else n);
          lp = (Options.leavePartsOnError options = Some True);
          tg = (case Options.tags options of None \<Rightarrow> [] | Some t \<Rightarrow> t)
      in case Options.params options of
           None \<Rightarrow> Inl (Error ''InputError: Upload requires params to be passed to upload.'')
         | Some pr \<Rightarrow>
             (case Options.client options of
                None \<Rightarrow> Inl (Error ''InputError: Upload requires a AWS client to do uploads with.'')
              | Some cl \<Rightarrow>
                  if ps < MIN_PART_SIZE
                    then Inl (Error (''EntityTooSmall: Your proposed upload partsize ['' @ showNat ps
                           @ ''] is smaller than the minimum allowed size ['' @ showNat MIN_PART_SIZE
                           @ ''] (5MB)''))
                  else if qs < 1
                    then Inl (Error ''Queue size: Must have at least one uploading queue.'')
                  else Inr \<lparr>Upload.queueSize = qs, partSize = ps, leavePartsOnError = lp, tags = tg,
                            client = cl, params = pr, totalBytes = byteLength (Body pr),
                            bytesUploadedSoFar = 0, aborted = False, onabort = False,
                            concurrentUploaders = [], createMultiPartPromise = False,
                            uploadedParts = [], uploadId = None, uploadEvent = None,
                            isMultiPart = True, singleUploadResult = None,
                            feeder = [], sent = [], emitted = [], firstRejection = None,
                            mainpc = NotStarted, doneResult = None\<rparr>))"

definition AbortError :: error where
  "AbortError = JsError ''AbortError'' ''Upload aborted.''"

text \<open>
  \<^verbatim>\<open>abort()\<close>: the signal of the abort controller sets its flag and calls the handler
  \<^verbatim>\<open>onabort\<close>, if one is set, once. The handler is the one \<^verbatim>\<open>__abortTimeout\<close> sets: it
  rejects the second promise of the \<^verbatim>\<open>Promise.race\<close> in \<^verbatim>\<open>done()\<close>, which settles the race
  unless it is settled already.
\<close>

definition abort :: "Upload \<Rightarrow> Upload" where
  "abort u =
     u\<lparr>aborted := True,
       doneResult := (if onabort u \<and> doneResult u = None then Some (Inl AbortError)
                      else doneResult u),
       onabort := False\<rparr>"

text \<open>\<^verbatim>\<open>on(event, listener)\<close>.\<close>

definition on :: "string \<Rightarrow> Upload \<Rightarrow> Upload" where
  "on event u = u\<lparr>uploadEvent := Some event\<rparr>"

definition notifyProgress :: "Progress \<Rightarrow> Upload \<Rightarrow> Upload" where
  "notifyProgress pr u = (if truthyStr (uploadEvent u) then u\<lparr>emitted := emitted u @ [pr]\<rparr> else u)"

subsection \<open>One uploader, from one suspension to the next\<close>

text \<open>
  A call of \<^verbatim>\<open>next()\<close> on the shared generator gets the next part that is left, or the end.
  Leaving the \<^verbatim>\<open>for await\<close> by \<^verbatim>\<open>return\<close> or \<^verbatim>\<open>throw\<close> closes the generator: the calls of
  \<^verbatim>\<open>next()\<close> made after that get the end.
\<close>

definition callNext :: "Upload \<Rightarrow> pc \<times> Upload" where
  "callNext u =
     (case feeder u of
        [] \<Rightarrow> (AwaitNext None, u)
      | p # ps \<Rightarrow> (AwaitNext (Some p), u\<lparr>feeder := ps\<rparr>))"

definition leaveLoop :: "error option \<Rightarrow> Upload \<Rightarrow> pc \<times> Upload" where
  "leaveLoop thrown u = (Finished thrown, u\<lparr>feeder := []\<rparr>)"

definition showOpt :: "string option \<Rightarrow> string" where
  "showOpt v = (case v of None \<Rightarrow> ''undefined'' | Some x \<Rightarrow> x)"

definition sendUploadPart :: "RawDataPart \<Rightarrow> Upload \<Rightarrow> pc \<times> Upload" where
  "sendUploadPart dataPart u =
     (AwaitPart dataPart,
      u\<lparr>sent := sent u @ [UploadPartCommand (uploadId u) (partNumber dataPart) (data dataPart)]\<rparr>)"

text \<open>
  The body of the loop for a part, up to its first \<^verbatim>\<open>await\<close>: the check of the number of
  parts, the check of the abort flag, the single put for a first part that is the last,
  the creation of the multipart upload when there is no upload id (the command is sent
  by the first uploader that gets here, the others await the same promise), or else the
  upload of the part.
\<close>

definition loopBody :: "RawDataPart \<Rightarrow> Upload \<Rightarrow> pc \<times> Upload" where
  "loopBody dataPart u =
     (if length (uploadedParts u) > MAX_PARTS
        then leaveLoop (Some (Error (''Exceeded '' @ showNat MAX_PARTS @ '' as part of the upload to ''
                                      @ showOpt (PutObjectCommandInput.Key (params u)) @ '' and ''
                                      @ showOpt (PutObjectCommandInput.Bucket (params u)) @ ''.''))) u
      else if aborted u then leaveLoop None u
      else if partNumber dataPart = 1 \<and> lastPart dataPart = Some True
        then (AwaitPut dataPart,
              u\<lparr>isMultiPart := False, sent := sent u @ [PutObjectCommand (data dataPart)]\<rparr>)
      else if \<not> truthyStr (uploadId u)
        then (AwaitCreate dataPart,
              if createMultiPartPromise u then u
              else u\<lparr>createMultiPartPromise := True, sent := sent u @ [CreateMultipartUploadCommand]\<rparr>)
      else sendUploadPart dataPart u)"

text \<open>
  The \<^verbatim>\<open>catch\<close> block: the error is thrown again when there is no upload id or when
  \<^verbatim>\<open>leavePartsOnError\<close> is set; otherwise it is swallowed and the loop goes on.
\<close>

definition catchBlock :: "error \<Rightarrow> Upload \<Rightarrow> pc \<times> Upload" where
  "catchBlock e u =
     (if \<not> truthyStr (uploadId u) then leaveLoop (Some e) u
      else if leavePartsOnError u then leaveLoop (Some e) u
      else callNext u)"

definition afterPut :: "RawDataPart \<Rightarrow> Upload \<Rightarrow> pc \<times> Upload" where
  "afterPut dataPart u =
     (case putObject (client u) (data dataPart) of
        Inl e \<Rightarrow> catchBlock e u
      | Inr etag \<Rightarrow>
          let totalSize = byteLength (Some (data dataPart));
              u1 = u\<lparr>singleUploadResult :=
                        Some (PutOutput etag (PutObjectCommandInput.Bucket (params u))
                                (PutObjectCommandInput.Key (params u)))\<rparr>;
              u2 = notifyProgress \<lparr>loaded = totalSize, total = totalSize, part = 1,
                                   Key = PutObjectCommandInput.Key (params u),
                                   Bucket = PutObjectCommandInput.Bucket (params u)\<rparr> u1
          in leaveLoop None u2)"

definition afterCreate :: "RawDataPart \<Rightarrow> Upload \<Rightarrow> pc \<times> Upload" where
  "afterCreate dataPart u =
     (case createMultipartUpload (client u) of
        Inl e \<Rightarrow> catchBlock e u
      | Inr uid \<Rightarrow>
          let u1 = u\<lparr>uploadId := uid\<rparr>
          in if aborted u1 then leaveLoop None u1 else sendUploadPart dataPart u1)"

definition truthyOpt :: "string option \<Rightarrow> string option" where
  "truthyOpt v = (if truthyStr v then v else None)"

definition afterPart :: "RawDataPart \<Rightarrow> Upload \<Rightarrow> pc \<times> Upload" where
  "afterPart dataPart u =
     (case uploadPart (client u) (uploadId u) (partNumber dataPart) (data dataPart) of
        Inl e \<Rightarrow> catchBlock e u
      | Inr partResult \<Rightarrow>
          if aborted u then leaveLoop None u
          else
            let u1 = u\<lparr>uploadedParts := uploadedParts u @
                         [\<lparr>PartNumber = partNumber dataPart,
                           ETag = PartResult.ETag partResult,
                           ChecksumCRC32 = truthyOpt (PartResult.ChecksumCRC32 partResult),
                           ChecksumCRC32C = truthyOpt (PartResult.ChecksumCRC32C partResult),
                           ChecksumSHA1 = truthyOpt (PartResult.ChecksumSHA1 partResult),
                           ChecksumSHA256 = truthyOpt (PartResult.ChecksumSHA256 partResult)\<rparr>]\<rparr>;
                u2 = u1\<lparr>bytesUploadedSoFar :=
                          bytesUploadedSoFar u1 + byteLength (Some (data dataPart))\<rparr>;
                u3 = notifyProgress \<lparr>loaded = bytesUploadedSoFar u2, total = totalBytes u2,
                                     part = partNumber dataPart,
                                     Key = PutObjectCommandInput.Key (params u2),
                                     Bucket = PutObjectCommandInput.Bucket (params u2)\<rparr> u2
            in callNext u3)"

text \<open>
  Uploader \<open>i\<close> runs from where it is suspended to its next suspension. An uploader that
  throws is the first rejection if there was none yet.
\<close>

definition resumeAt :: "pc \<Rightarrow> Upload \<Rightarrow> pc \<times> Upload" where
  "resumeAt at u =
     (case at of
        AwaitNext None \<Rightarrow> (Finished None, u)
      | AwaitNext (Some dataPart) \<Rightarrow> loopBody dataPart u
      | AwaitPut dataPart \<Rightarrow> afterPut dataPart u
      | AwaitCreate dataPart \<Rightarrow> afterCreate dataPart u
      | AwaitPart dataPart \<Rightarrow> afterPart dataPart u
      | Finished r \<Rightarrow> (Finished r, u))"

definition noteRejection :: "pc \<Rightarrow> Upload \<Rightarrow> Upload" where
  "noteRejection at u =
     (case at of
        Finished (Some e) \<Rightarrow> (if firstRejection u = None then u\<lparr>firstRejection := Some e\<rparr> else u)
      | _ \<Rightarrow> u)"

definition resume :: "nat \<Rightarrow> Upload \<Rightarrow> Upload" where
  "resume i u =
     (if i < length (concurrentUploaders u) then
        (case concurrentUploaders u ! i of
           Finished r \<Rightarrow> u
         | at \<Rightarrow>
             let (at', u') = resumeAt at u
             in noteRejection at' (u'\<lparr>concurrentUploaders := (concurrentUploaders u')[i := at']\<rparr>))
      else u)"

subsection \<open>The top level\<close>

text \<open>A promise of \<^verbatim>\<open>Promise.race\<close> settles the race if nothing has settled it before.\<close>

definition settle :: "error + uploadOutput \<Rightarrow> Upload \<Rightarrow> Upload" where
  "settle v u =
     u\<lparr>mainpc := Settled,
       doneResult := (case doneResult u of None \<Rightarrow> Some v | Some x \<Rightarrow> Some x)\<rparr>"

text \<open>The start of \<^verbatim>\<open>__doMultipartUpload\<close>: each of the \<^verbatim>\<open>queueSize\<close> uploaders runs to its
  first call of \<^verbatim>\<open>next()\<close>.\<close>

fun spawn :: "nat \<Rightarrow> Upload \<Rightarrow> Upload" where
  "spawn 0 u = u"
| "spawn (Suc n) u =
     (let (at, u') = callNext u
      in spawn n (u'\<lparr>concurrentUploaders := concurrentUploaders u' @ [at]\<rparr>))"

text \<open>
  \<^verbatim>\<open>done()\<close>, up to the point where both promises of the race are pending. The parts that
  \<^verbatim>\<open>getChunk(this.params.Body, this.partSize)\<close> yields are a parameter: \<^verbatim>\<open>getChunk\<close> is
  declared in \<^verbatim>\<open>./chunker.js\<close>.
\<close>

definition Upload_done :: "(bytes option \<Rightarrow> nat \<Rightarrow> RawDataPart list) \<Rightarrow> Upload \<Rightarrow> Upload" where
  "Upload_done getChunk u =
     (let u1 = u\<lparr>feeder := getChunk (Body (params u)) (partSize u)\<rparr>;
          u2 = spawn (nat (Upload.queueSize u1)) u1
      in u2\<lparr>mainpc := AwaitUploaders, onabort := True\<rparr>)"

definition addTags :: "uploadOutput \<Rightarrow> Upload \<Rightarrow> Upload" where
  "addTags result u =
     (if tags u \<noteq> []
        then u\<lparr>sent := sent u @ [PutObjectTaggingCommand (tags u)], mainpc := AwaitTagging result\<rparr>
      else settle (Inr result) u)"

text \<open>
  \<^verbatim>\<open>__doMultipartUpload\<close> from where it is suspended. \<^verbatim>\<open>Promise.all\<close> rejects with the first
  rejection of an uploader and resolves when all have returned; until then this step
  changes nothing.
\<close>

definition resumeMain :: "Upload \<Rightarrow> Upload" where
  "resumeMain u =
     (case mainpc u of
        AwaitUploaders \<Rightarrow>
          (case firstRejection u of
             Some e \<Rightarrow> settle (Inl e) u
           | None \<Rightarrow>
               if list_all (\<lambda>at. at = Finished None) (concurrentUploaders u) then
                 (if aborted u then settle (Inl AbortError) u
                  else if isMultiPart u then
                    let u1 = u\<lparr>uploadedParts := sort_key PartNumber (uploadedParts u)\<rparr>
                    in u1\<lparr>sent := sent u1 @ [CompleteMultipartUploadCommand (uploadId u1) (uploadedParts u1)],
                          mainpc := AwaitComplete\<rparr>
                  else addTags (case singleUploadResult u of
                                  Some result \<Rightarrow> result
                                | None \<Rightarrow> Undefined) u)
               else u)
      | AwaitComplete \<Rightarrow>
          (case completeMultipartUpload (client u) (uploadId u) (uploadedParts u) of
             Inl e \<Rightarrow> settle (Inl e) u
           | Inr r \<Rightarrow> addTags (CompleteOutput r) u)
      | AwaitTagging result \<Rightarrow>
          (case putObjectTagging (client u) of
             Some e \<Rightarrow> settle (Inl e) u
           | None \<Rightarrow> settle (Inr result) u)
      | _ \<Rightarrow> u)"

subsection \<open>Schedules\<close>

text \<open>
  What can happen next to a running upload: the caller aborts it, an uploader goes on,
  or the top level goes on. A schedule is a list of such events; every interleaving of
  the uploaders, the top level and an abort is a schedule.
\<close>

datatype event = Abort | Resume nat | ResumeMain

fun step :: "event \<Rightarrow> Upload \<Rightarrow> Upload" where
  "step Abort u = abort u"
| "step (Resume i) u = resume i u"
| "step ResumeMain u = resumeMain u"

fun run :: "event list \<Rightarrow> Upload \<Rightarrow> Upload" where
  "run [] u = u"
| "run (ev # evs) u = run evs (step ev u)"

text \<open>The parts whose upload has begun: the \<^verbatim>\<open>UploadPartCommand\<close>s and single puts sent.\<close>

fun partUploads :: "command list \<Rightarrow> command list" where
  "partUploads [] = []"
| "partUploads (UploadPartCommand uid n d # cs) = UploadPartCommand uid n d # partUploads cs"
| "partUploads (PutObjectCommand d # cs) = PutObjectCommand d # partUploads cs"
| "partUploads (_ # cs) = partUploads cs"

text \<open>
  An upload that was aborted before anything was uploaded, as \<^verbatim>\<open>done()\<close> finds it when
  \<^verbatim>\<open>abort()\<close> was called first: the flag is set, no part is recorded, no part upload has
  been sent, every uploader is at its \<^verbatim>\<open>for await\<close> or has returned, and \<^verbatim>\<open>done()\<close> is
  pending or rejected with the abort error.
\<close>

definition cancelledAtStart :: "Upload \<Rightarrow> bool" where
  "cancelledAtStart u =
     (aborted u \<and> firstRejection u = None \<and> uploadedParts u = [] \<and> sent u = []
      \<and> list_all (\<lambda>at. case at of AwaitNext v \<Rightarrow> True | Finished None \<Rightarrow> True | _ \<Rightarrow> False)
           (concurrentUploaders u)
      \<and> (mainpc u = AwaitUploaders \<or> mainpc u = Settled)
      \<and> (doneResult u = None \<or> doneResult u = Some (Inl AbortError)))"

text \<open>
  For the examples: a client that accepts every command, options for a number of
  uploaders and a body, and the \<open>n\<close> parts of a body of \<open>n - 1\<close> times the minimal part
  size and one byte more: numbered from 1, the last one flagged.
\<close>

definition exampleS3 :: S3Client where
  "exampleS3 =
     \<lparr>putObject = (\<lambda>d. Inr (Some ''etag'')),
      createMultipartUpload = Inr (Some ''upload-1''),
      uploadPart = (\<lambda>uid n d. Inr \<lparr>PartResult.ETag = Some ''etag'', ChecksumCRC32 = None,
                                      ChecksumCRC32C = None, ChecksumSHA1 = None,
                                      ChecksumSHA256 = None\<rparr>),
      completeMultipartUpload = (\<lambda>uid parts. Inr ''completed''),
      putObjectTagging = None\<rparr>"

definition exampleOptions :: "int \<Rightarrow> bytes option \<Rightarrow> Options" where
  "exampleOptions q content =
     \<lparr>Options.queueSize = Some q, partSize = None, leavePartsOnError = None, tags = None,
      client = Some exampleS3,
      params = Some \<lparr>PutObjectCommandInput.Bucket = Some ''bucket'', Key = Some ''key'',
                     Body = content\<rparr>\<rparr>"

definition exampleUpload :: "int \<Rightarrow> bytes option \<Rightarrow> Upload" where
  "exampleUpload q content = projr (Upload_constructor (exampleOptions q content))"

definition exampleBody :: "nat \<Rightarrow> bytes option" where
  "exampleBody n = Some (replicate ((n - 1) * MIN_PART_SIZE + 1) 0)"

definition manyParts :: "nat \<Rightarrow> RawDataPart list" where
  "manyParts n =
     map (\<lambda>i. \<lparr>partNumber = i, data = replicate (if i = n then 1 else MIN_PART_SIZE) 0,
               lastPart = (if i = n then Some True else None)\<rparr>) [1..<Suc n]"

section \<open>Properties of the chunkers\<close>

subsection \<open>Ranges with both bounds\<close>

lemma slice_range:
  assumes "0 \<le> a" "a \<le> b" "b \<le> int (length S)"
  shows "slice S (Some a) (Some b) = take (nat (b - a)) (drop (nat a) S)"
  using assms by (simp add: slice_def relativeIndex_def Let_def min_def nat_diff_distrib)

text \<open>The buffer variant returns \<open>S[a:b]\<close> for every range, the empty ones included.\<close>

lemma fromBuffer_range:
  assumes "0 \<le> a" "a \<le> b" "b \<le> int (length S)"
  shows "fromBuffer S (Some a) (Some b) w = (Inr (take (nat (b - a)) (drop (nat a) S)), w)"
  using assms by (simp add: fromBuffer_def slice_range)

text \<open>The local-file variant returns \<open>S[a:b]\<close> when the range is not empty.\<close>

lemma nodeFileRead_nonempty_range:
  assumes "0 \<le> a" "a < b" "b \<le> int (length S)" "files w filePath = Some S"
  shows "nodeFileRead fileSize filePath (Some a) (Some b) w
           = (Inr (take (nat (b - a)) (drop (nat a) S)), w)"
  using assms by (simp add: nodeFileRead_def createReadStream_def truthyNum_def Let_def)

text \<open>
  On an empty range the local-file variant does not return the empty array: \<open>read(0, 0)\<close>
  takes the branch meant for absent bounds and reads the whole file, and \<open>read(a, a)\<close>
  with \<open>0 < a\<close> asks the stream for \<open>start = a\<close>, \<open>end = a - 1\<close>.
\<close>

lemma nodeFileRead_zero_zero:
  assumes "files w filePath = Some S"
  shows "nodeFileRead fileSize filePath (Some 0) (Some 0) w = (Inr S, w)"
  using assms by (simp add: nodeFileRead_def readFile_def truthyNum_def Let_def)

lemma nodeFileRead_empty_positive:
  assumes "0 < a"
  shows "nodeFileRead fileSize filePath (Some a) (Some a) w
           = (Inl (JsError ''RangeError'' ''ERR_OUT_OF_RANGE''), w)"
  using assms by (simp add: nodeFileRead_def createReadStream_def truthyNum_def Let_def)

text \<open>
  Claim C1 says that the buffer chunker and the local-file chunker over the same content
  \<open>S\<close> both return \<open>S[a:b]\<close> for all \<open>0 \<le> a \<le> b \<le> |S|\<close>, the empty range \<open>a = b\<close>
  included. At the content \<open>[1, 2, 3]\<close> and the range \<open>a = b = 0\<close> the local-file chunker
  returns the whole file, while the buffer chunker returns the empty array.
\<close>

theorem empty_range_file_vs_buffer:
  "(case fromNodeFile exampleWorld ''payload.bin'' of
      Inl e \<Rightarrow> (Inl e, exampleWorld)
    | Inr read \<Rightarrow> read (Some 0) (Some 0) exampleWorld) = (Inr [1, 2, 3], exampleWorld)
   \<and> fromBuffer [1, 2, 3] (Some 0) (Some 0) exampleWorld = (Inr [], exampleWorld)"
  by (simp add: fromNodeFile_def statSync_size_def nodeFileRead_def readFile_def truthyNum_def
      fromBuffer_def slice_def relativeIndex_def exampleWorld_def Let_def)

subsection \<open>A negative start and no end\<close>

text \<open>
  Claim C6: for content \<open>S\<close> of size \<open>n\<close> and every \<open>k > 0\<close>, \<open>read(-k)\<close> with no end
  returns the suffix \<open>S[max(0, n - k):]\<close>, for the buffer chunker and for the local-file
  chunker made and read while the file holds \<open>S\<close>.
\<close>

theorem read_negative_start_suffix:
  assumes "0 < k" and "files w filePath = Some S"
  shows "fromBuffer S (Some (- k)) None w = (Inr (drop (nat (max 0 (int (length S) - k))) S), w)
       \<and> (case fromNodeFile w filePath of
            Inl e \<Rightarrow> (Inl e, w)
          | Inr read \<Rightarrow> read (Some (- k)) None w)
         = (Inr (drop (nat (max 0 (int (length S) - k))) S), w)"
proof
  show "fromBuffer S (Some (- k)) None w = (Inr (drop (nat (max 0 (int (length S) - k))) S), w)"
    using assms(1) by (simp add: fromBuffer_def slice_def relativeIndex_def Let_def max.commute)
next
  have "nodeFileRead (length S) filePath (Some (- k)) None w
          = (Inr (drop (nat (max 0 (int (length S) - k))) S), w)"
    using assms by (simp add: nodeFileRead_def createReadStream_def truthyNum_def Let_def)
  then show "(case fromNodeFile w filePath of
            Inl e \<Rightarrow> (Inl e, w)
          | Inr read \<Rightarrow> read (Some (- k)) None w)
         = (Inr (drop (nat (max 0 (int (length S) - k))) S), w)"
    using assms(2) by (simp add: fromNodeFile_def statSync_size_def)
qed

theorem read_negative_start_suffix_witness:
  "fromBuffer [1, 2, 3] (Some (- 2)) None exampleWorld = (Inr [2, 3], exampleWorld)
   \<and> (case fromNodeFile exampleWorld ''payload.bin'' of
            Inl e \<Rightarrow> (Inl e, exampleWorld)
          | Inr read \<Rightarrow> read (Some (- 2)) None exampleWorld) = (Inr [2, 3], exampleWorld)"
proof -
  have k: "(0::int) < 2" by simp
  have f: "files exampleWorld ''payload.bin'' = Some [1, 2, 3]" by (simp add: exampleWorld_def)
  show ?thesis using read_negative_start_suffix [OF k f] by simp
qed

subsection \<open>A negative end on a remote source\<close>




subsection \<open>Stream sources\<close>


section \<open>Properties of the client\<close>

subsection \<open>The KAS endpoint of a new client\<close>

text \<open>Removing the match of \<^verbatim>\<open>/\/rewrap$/\<close> removes a trailing \<^verbatim>\<open>/rewrap\<close> and nothing else.\<close>

lemma replaceRewrap_suffix:
  "replaceRewrap s = (if suffix ''/rewrap'' s then take (length s - 7) s else s)"
proof (induction s)
  case Nil
  then show ?case by simp
next
  case (Cons c cs)
  show ?case
  proof (cases "c # cs = ''/rewrap''")
    case True
    then show ?thesis by simp
  next
    case False
    then have "suffix ''/rewrap'' (c # cs) = suffix ''/rewrap'' cs"
      by (auto simp: suffix_Cons)
    moreover have "suffix ''/rewrap'' cs \<Longrightarrow> 7 \<le> length cs"
      using suffix_length_le by fastforce
    ultimately show ?thesis using False Cons.IH
      by (auto simp: take_Cons')
  qed
qed

lemma constructor_no_kas:
  assumes "\<not> truthyStr (ClientConfig.kasEndpoint config)"
    and "\<not> truthyStr (keyRewrapEndpoint config)"
  shows "Client_constructor pf config = (Inl (Error ''KAS definition not found''), [])"
  using assms by (simp add: Client_constructor_def Let_def)

lemma constructor_Inr_kasEndpoint:
  assumes "fst (Client_constructor pf config) = Inr c"
  shows "Client.kasEndpoint c =
           (if truthyStr (ClientConfig.kasEndpoint config) then the (ClientConfig.kasEndpoint config)
            else replaceRewrap (the (keyRewrapEndpoint config)))"
proof -
  let ?k = "if truthyStr (ClientConfig.kasEndpoint config) then the (ClientConfig.kasEndpoint config)
            else replaceRewrap (the (keyRewrapEndpoint config))"
  have "case fst (Client_constructor pf config) of Inl e \<Rightarrow> True | Inr c' \<Rightarrow> Client.kasEndpoint c' = ?k"
    unfolding Client_constructor_def Let_def
    by (simp add: case_prod_beta)
  with assms show ?thesis by simp
qed

lemma constructor_example:
  "Client_constructor examplePlatform exampleConfig
     = (Inr exampleClient,
        [GenerateKeyPair,
         UpdateClientPublicKey (OIDCRefreshTokenProvider ''dcr-test'' ''a.b.c''
                                  (Some ''http://localhost/auth/realms/tdf'')) ''PUB'' None,
         GetPublicKeyFromKeyAccessServer ''http://localhost/api/kas''])"
  by (simp add: Client_constructor_def exampleConfig_def examplePlatform_def truthyStr_def Let_def
      createSessionKeys_def fetchKasPubKey_def isAppIdProviderCheck_def exampleClient_def)

text \<open>
  Claim C9: when the config has no \<^verbatim>\<open>kasEndpoint\<close> (absent or empty, which the code does
  not tell apart) but has \<^verbatim>\<open>keyRewrapEndpoint\<close>, the \<^verbatim>\<open>kasEndpoint\<close> of the instance is
  \<^verbatim>\<open>keyRewrapEndpoint\<close> without a trailing \<^verbatim>\<open>/rewrap\<close>, and the string itself when it has
  no such suffix; when both are absent the constructor throws and has started no effect.
\<close>

theorem constructor_kasEndpoint:
  assumes "\<not> truthyStr (ClientConfig.kasEndpoint config)"
  shows "(\<not> truthyStr (keyRewrapEndpoint config) \<longrightarrow>
            Client_constructor pf config = (Inl (Error ''KAS definition not found''), []))
       \<and> (\<forall>r c. keyRewrapEndpoint config = Some r \<and> r \<noteq> [] \<and>
              fst (Client_constructor pf config) = Inr c \<longrightarrow>
              Client.kasEndpoint c = (if suffix ''/rewrap'' r then take (length r - 7) r else r))"
proof (intro conjI impI allI)
  assume "\<not> truthyStr (keyRewrapEndpoint config)"
  with assms show "Client_constructor pf config = (Inl (Error ''KAS definition not found''), [])"
    by (rule constructor_no_kas)
next
  fix r c
  assume h: "keyRewrapEndpoint config = Some r \<and> r \<noteq> [] \<and> fst (Client_constructor pf config) = Inr c"
  with assms constructor_Inr_kasEndpoint [of pf config c]
  have "Client.kasEndpoint c = replaceRewrap r" by simp
  then show "Client.kasEndpoint c = (if suffix ''/rewrap'' r then take (length r - 7) r else r)"
    by (simp only: replaceRewrap_suffix)
qed

theorem constructor_kasEndpoint_witness:
  "Client_constructor examplePlatform (exampleConfig\<lparr>keyRewrapEndpoint := None\<rparr>)
     = (Inl (Error ''KAS definition not found''), [])
   \<and> fst (Client_constructor examplePlatform exampleConfig) = Inr exampleClient
   \<and> Client.kasEndpoint exampleClient = ''http://localhost/api/kas''"
proof -
  have a: "\<not> truthyStr (ClientConfig.kasEndpoint (exampleConfig\<lparr>keyRewrapEndpoint := None\<rparr>))"
    by (simp add: exampleConfig_def truthyStr_def)
  have b: "\<not> truthyStr (ClientConfig.kasEndpoint exampleConfig)"
    by (simp add: exampleConfig_def truthyStr_def)
  have c: "keyRewrapEndpoint exampleConfig = Some ''http://localhost/api/kas/rewrap''"
    by (simp add: exampleConfig_def)
  have d: "fst (Client_constructor examplePlatform exampleConfig) = Inr exampleClient"
    by (simp add: constructor_example)
  have s: "suffix ''/rewrap'' ''http://localhost/api/kas/rewrap''"
    by (rule suffixI [of _ "''http://localhost/api/kas''"]) simp
  from constructor_kasEndpoint [OF a, of examplePlatform]
  have 1: "Client_constructor examplePlatform (exampleConfig\<lparr>keyRewrapEndpoint := None\<rparr>)
     = (Inl (Error ''KAS definition not found''), [])"
    by (simp add: truthyStr_def)
  from constructor_kasEndpoint [OF b, of examplePlatform] c d s
  have 2: "Client.kasEndpoint exampleClient = ''http://localhost/api/kas''"
    by simp
  from 1 2 d show ?thesis by simp
qed

subsection \<open>Encrypt\<close>

lemma default_false: "(case x of None \<Rightarrow> False | Some b \<Rightarrow> b) = (x = Some True)"
  by (cases x) auto

lemma contentStream_encryptBuilder:
  "contentStream (addKeyAccess (encryptBuilder this args sk wsize policyObj) ka) = Some (source args)"
  by (simp add: addKeyAccess_def encryptBuilder_def Let_def split: option.splits)

lemma length_concat_sum: "length (concat xss) = sum_list (map length xss)"
  by (induction xss) auto

lemma writeStream_over_limit:
  assumes "contentStream tdf = Some src" and "limit < sum_list (map length (chunks src))"
  shows "isl (writeStream pf tdf limit rca key)"
  using assms by (simp add: writeStream_def streamToBuffer_def length_concat_sum split: option.splits)


lemma encrypt_cases:
  "isl (fst (encrypt pf this args)) \<and> snd (encrypt pf this args) = []
   \<or> isl (fst (encrypt pf this args)) \<and> snd (encrypt pf this args) = [AwaitSessionKeys]
   \<or> isl (fst (encrypt pf this args))
       \<and> snd (encrypt pf this args) = [AwaitSessionKeys, AwaitKasPublicKey]
   \<or> (\<exists>sk kpk.
         sessionKeys this = Inr sk \<and> Client.kasPublicKey this = Inr kpk \<and>
         snd (encrypt pf this args) =
           [AwaitSessionKeys, AwaitKasPublicKey,
            CreatePolicyObject
              (createPolicyObject pf
                 (case scope args of
                    None \<Rightarrow> \<lparr>policyObject = None, policyId = None,
                               attributes = Some [], dissem = Some []\<rparr>
                  | Some x \<Rightarrow> x)),
            AddKeyAccess
              \<lparr>KeyAccessParams.type = (if offline args = Some True then ''wrapped'' else ''remote''),
               url = Client.kasEndpoint this, publicKey = kpk,
               metadata = EncryptParams.metadata args\<rparr>,
            WriteStream (if asHtml args = Some True then HTML_BYTE_LIMIT else GLOBAL_BYTE_LIMIT)
              (rcaSource args) (payloadKey args)] \<and>
         isl (fst (encrypt pf this args)) =
           isl (writeStream pf
                  (addKeyAccess
                     (encryptBuilder this args sk
                        (case windowSize args of None \<Rightarrow> DEFAULT_SEGMENT_SIZE | Some n \<Rightarrow> n)
                        (createPolicyObject pf
                           (case scope args of
                              None \<Rightarrow> \<lparr>policyObject = None, policyId = None,
                                         attributes = Some [], dissem = Some []\<rparr>
                            | Some x \<Rightarrow> x)))
                     \<lparr>KeyAccessParams.type =
                        (if offline args = Some True then ''wrapped'' else ''remote''),
                      url = Client.kasEndpoint this, publicKey = kpk,
                      metadata = EncryptParams.metadata args\<rparr>)
                  (if asHtml args = Some True then HTML_BYTE_LIMIT else GLOBAL_BYTE_LIMIT)
                  (rcaSource args) (payloadKey args)))"
  unfolding encrypt_def Let_def default_false
  by (simp split: sum.split)

lemma encrypt_example:
  "encrypt examplePlatform exampleClient (exampleParams True (replicate 100000001 0))
    = (Inl (Error ''byte limit exceeded''),
       [AwaitSessionKeys, AwaitKasPublicKey,
        CreatePolicyObject \<lparr>uuid = ''00000000-0000-4000-8000-000000000000'',
                            body = \<lparr>dataAttributes = [], dissem = []\<rparr>\<rparr>,
        AddKeyAccess \<lparr>KeyAccessParams.type = ''wrapped'', url = ''http://localhost/api/kas'',
                      publicKey = ''KASPUB'', metadata = None\<rparr>,
        WriteStream 100000000 False None])"
  by (simp add: encrypt_def exampleClient_def exampleParams_def examplePlatform_def Let_def
      truthyStr_def createPolicyObject_def writeStream_def contentStream_encryptBuilder
      streamToBuffer_def HTML_BYTE_LIMIT_def)



text \<open>
  Claim C10: a call of \<^verbatim>\<open>encrypt\<close> with \<^verbatim>\<open>asHtml = true\<close> fails when an \<^verbatim>\<open>rcaSource\<close> is
  passed or when the client has no \<^verbatim>\<open>readerUrl\<close>, and it fails before any step: no
  session keys awaited, no KAS public key awaited, no policy built.
\<close>

theorem encrypt_html_guards:
  assumes "asHtml args = Some True"
    and "rcaSource args \<or> \<not> truthyStr (Client.readerUrl this)"
  shows "encrypt pf this args
           = (Inl (Error (if rcaSource args
                          then ''rca links should be used only with zip format''
                          else ''html container missing required parameter: [readerUrl]'')), [])"
  using assms unfolding encrypt_def Let_def default_false by auto

theorem encrypt_html_guards_witness:
  "encrypt examplePlatform exampleClient ((exampleParams True [1, 2, 3])\<lparr>rcaSource := True\<rparr>)
     = (Inl (Error ''rca links should be used only with zip format''), [])
   \<and> encrypt examplePlatform (exampleClient\<lparr>readerUrl := None\<rparr>) (exampleParams True [1, 2, 3])
     = (Inl (Error ''html container missing required parameter: [readerUrl]''), [])"
proof -
  have a: "asHtml ((exampleParams True [1, 2, 3])\<lparr>rcaSource := True\<rparr>) = Some True"
    by (simp add: exampleParams_def)
  have b: "rcaSource ((exampleParams True [1, 2, 3])\<lparr>rcaSource := True\<rparr>)
           \<or> \<not> truthyStr (Client.readerUrl exampleClient)"
    by simp
  have c: "asHtml (exampleParams True [1, 2, 3]) = Some True"
    by (simp add: exampleParams_def)
  have d: "rcaSource (exampleParams True [1, 2, 3])
           \<or> \<not> truthyStr (Client.readerUrl (exampleClient\<lparr>readerUrl := None\<rparr>))"
    by (simp add: truthyStr_def)
  show ?thesis
    using encrypt_html_guards [OF a b, of examplePlatform]
      encrypt_html_guards [OF c d, of examplePlatform]
    by (simp add: exampleParams_def)
qed

text \<open>
  Claim C3: the byte limit that \<^verbatim>\<open>encrypt\<close> hands to the writer is \<open>100 * 10^6\<close> when
  \<^verbatim>\<open>asHtml\<close> is true and \<open>64 * 10^9\<close> otherwise, and the call fails when the plaintext
  is longer than that limit.
\<close>

theorem encrypt_byte_limit:
  "(WriteStream limit rca key \<in> set (snd (encrypt pf this args)) \<longrightarrow>
      limit = (if asHtml args = Some True then 100 * 10 ^ 6 else 64 * 10 ^ 9))
   \<and> ((if asHtml args = Some True then 100 * 10 ^ 6 else 64 * 10 ^ 9)
         < sum_list (map length (chunks (source args)))
       \<longrightarrow> isl (fst (encrypt pf this args)))"
proof -
  let ?L = "if asHtml args = Some True then HTML_BYTE_LIMIT else GLOBAL_BYTE_LIMIT"
  have L: "?L = (if asHtml args = Some True then 100 * 10 ^ 6 else 64 * 10 ^ 9)"
    by (simp add: HTML_BYTE_LIMIT_def GLOBAL_BYTE_LIMIT_def)
  have a: "WriteStream limit rca key \<in> set (snd (encrypt pf this args)) \<longrightarrow> limit = ?L"
    using encrypt_cases [of pf this args] by auto
  have b: "?L < sum_list (map length (chunks (source args)))
             \<longrightarrow> isl (fst (encrypt pf this args))"
    using encrypt_cases [of pf this args]
      writeStream_over_limit [OF contentStream_encryptBuilder]
    by auto
  from a b show ?thesis unfolding L by blast
qed

theorem encrypt_byte_limit_witness:
  "WriteStream (100 * 10 ^ 6) False None
     \<in> set (snd (encrypt examplePlatform exampleClient (exampleParams True (replicate 100000001 0))))
   \<and> (100 * 10 ^ 6 :: nat)
       < sum_list (map length (chunks (source (exampleParams True (replicate 100000001 0)))))
   \<and> isl (fst (encrypt examplePlatform exampleClient (exampleParams True (replicate 100000001 0))))"
proof -
  have m: "WriteStream (100 * 10 ^ 6) False None
     \<in> set (snd (encrypt examplePlatform exampleClient (exampleParams True (replicate 100000001 0))))"
    by (simp add: encrypt_example)
  have h: "asHtml (exampleParams True (replicate 100000001 0)) = Some True"
    by (simp add: exampleParams_def)
  have l: "(100 * 10 ^ 6 :: nat)
       < sum_list (map length (chunks (source (exampleParams True (replicate 100000001 0)))))"
    by (simp add: exampleParams_def)
  from encrypt_byte_limit [of "100 * 10 ^ 6" False None examplePlatform exampleClient
      "exampleParams True (replicate 100000001 0)"] h l
  have "isl (fst (encrypt examplePlatform exampleClient (exampleParams True (replicate 100000001 0))))"
    by simp
  with m l show ?thesis by simp
qed



section \<open>Properties of the upload\<close>

subsection \<open>What the steps of an uploader leave alone\<close>

lemma partUploads_append: "partUploads (xs @ ys) = partUploads xs @ partUploads ys"
  by (induction xs rule: partUploads.induct) auto

text \<open>What an uploader never touches.\<close>

lemma notifyProgress_frame:
  "aborted (notifyProgress pr u) = aborted u"
  "doneResult (notifyProgress pr u) = doneResult u"
  "onabort (notifyProgress pr u) = onabort u"
  "uploadedParts (notifyProgress pr u) = uploadedParts u"
  "sent (notifyProgress pr u) = sent u"
  "feeder (notifyProgress pr u) = feeder u"
  by (simp_all add: notifyProgress_def)

lemma callNext_frame:
  "aborted (snd (callNext u)) = aborted u"
  "doneResult (snd (callNext u)) = doneResult u"
  "onabort (snd (callNext u)) = onabort u"
  "uploadedParts (snd (callNext u)) = uploadedParts u"
  "sent (snd (callNext u)) = sent u"
  by (simp_all add: callNext_def split: list.splits)

lemma leaveLoop_frame:
  "aborted (snd (leaveLoop r u)) = aborted u"
  "doneResult (snd (leaveLoop r u)) = doneResult u"
  "onabort (snd (leaveLoop r u)) = onabort u"
  "uploadedParts (snd (leaveLoop r u)) = uploadedParts u"
  "sent (snd (leaveLoop r u)) = sent u"
  by (simp_all add: leaveLoop_def)

lemma catchBlock_frame:
  "aborted (snd (catchBlock e u)) = aborted u"
  "doneResult (snd (catchBlock e u)) = doneResult u"
  "onabort (snd (catchBlock e u)) = onabort u"
  "uploadedParts (snd (catchBlock e u)) = uploadedParts u"
  "sent (snd (catchBlock e u)) = sent u"
  by (simp_all add: catchBlock_def callNext_frame leaveLoop_frame)

lemma sendUploadPart_frame:
  "aborted (snd (sendUploadPart p u)) = aborted u"
  "doneResult (snd (sendUploadPart p u)) = doneResult u"
  "onabort (snd (sendUploadPart p u)) = onabort u"
  "uploadedParts (snd (sendUploadPart p u)) = uploadedParts u"
  by (simp_all add: sendUploadPart_def)


lemma loopBody_frame:
  "aborted (snd (loopBody p u)) = aborted u"
  "doneResult (snd (loopBody p u)) = doneResult u"
  "onabort (snd (loopBody p u)) = onabort u"
  "uploadedParts (snd (loopBody p u)) = uploadedParts u"
  by (simp_all add: loopBody_def leaveLoop_frame sendUploadPart_frame)

lemma loopBody_aborted:
  "aborted u \<Longrightarrow> sent (snd (loopBody p u)) = sent u"
  by (simp add: loopBody_def leaveLoop_frame)


lemma afterPut_frame:
  "aborted (snd (afterPut p u)) = aborted u"
  "doneResult (snd (afterPut p u)) = doneResult u"
  "onabort (snd (afterPut p u)) = onabort u"
  "uploadedParts (snd (afterPut p u)) = uploadedParts u"
  "sent (snd (afterPut p u)) = sent u"
  by (simp_all add: afterPut_def Let_def catchBlock_frame leaveLoop_frame notifyProgress_frame
      split: sum.splits)


lemma afterCreate_frame:
  "aborted (snd (afterCreate p u)) = aborted u"
  "doneResult (snd (afterCreate p u)) = doneResult u"
  "onabort (snd (afterCreate p u)) = onabort u"
  "uploadedParts (snd (afterCreate p u)) = uploadedParts u"
  by (simp_all add: afterCreate_def Let_def catchBlock_frame leaveLoop_frame sendUploadPart_frame
      split: sum.splits)

lemma afterCreate_aborted:
  "aborted u \<Longrightarrow> sent (snd (afterCreate p u)) = sent u"
  by (simp add: afterCreate_def Let_def catchBlock_frame leaveLoop_frame split: sum.splits)


lemma afterPart_frame:
  "aborted (snd (afterPart p u)) = aborted u"
  "doneResult (snd (afterPart p u)) = doneResult u"
  "onabort (snd (afterPart p u)) = onabort u"
  "sent (snd (afterPart p u)) = sent u"
  by (simp_all add: afterPart_def Let_def catchBlock_frame leaveLoop_frame callNext_frame
      notifyProgress_frame split: sum.splits)

lemma afterPart_aborted:
  "aborted u \<Longrightarrow> uploadedParts (snd (afterPart p u)) = uploadedParts u"
  by (simp add: afterPart_def Let_def catchBlock_frame leaveLoop_frame split: sum.splits)


lemma resumeAt_frame:
  "aborted (snd (resumeAt at u)) = aborted u"
  "doneResult (snd (resumeAt at u)) = doneResult u"
  "onabort (snd (resumeAt at u)) = onabort u"
  by (simp_all add: resumeAt_def loopBody_frame afterPut_frame afterCreate_frame afterPart_frame
      split: pc.splits option.splits)

lemma resumeAt_aborted:
  assumes "aborted u"
  shows "uploadedParts (snd (resumeAt at u)) = uploadedParts u"
    and "sent (snd (resumeAt at u)) = sent u"
  using assms
  by (simp_all add: resumeAt_def loopBody_frame afterPut_frame afterCreate_frame afterPart_frame
      loopBody_aborted afterCreate_aborted afterPart_aborted split: pc.splits option.splits)


lemma noteRejection_frame:
  "aborted (noteRejection at u) = aborted u"
  "doneResult (noteRejection at u) = doneResult u"
  "onabort (noteRejection at u) = onabort u"
  "uploadedParts (noteRejection at u) = uploadedParts u"
  "sent (noteRejection at u) = sent u"
  by (simp_all add: noteRejection_def split: pc.splits option.splits)

lemma resume_frame:
  "aborted (resume i u) = aborted u"
  "doneResult (resume i u) = doneResult u"
  "onabort (resume i u) = onabort u"
  by (simp_all add: resume_def noteRejection_frame case_prod_beta Let_def
      resumeAt_frame [where u = u] split: pc.splits)

lemma resume_aborted:
  assumes "aborted u"
  shows "uploadedParts (resume i u) = uploadedParts u"
    and "sent (resume i u) = sent u"
  using assms
  by (simp_all add: resume_def noteRejection_frame case_prod_beta Let_def
      resumeAt_aborted [where u = u] split: pc.splits)

subsection \<open>What the top level leaves alone\<close>

lemma settle_frame:
  "aborted (settle v u) = aborted u"
  "onabort (settle v u) = onabort u"
  "uploadedParts (settle v u) = uploadedParts u"
  "sent (settle v u) = sent u"
  "doneResult (settle v u) = (case doneResult u of None \<Rightarrow> Some v | Some x \<Rightarrow> Some x)"
  by (simp_all add: settle_def)

lemma addTags_frame:
  "aborted (addTags r u) = aborted u"
  "onabort (addTags r u) = onabort u"
  "uploadedParts (addTags r u) = uploadedParts u"
  "partUploads (sent (addTags r u)) = partUploads (sent u)"
  "doneResult u = Some x \<Longrightarrow> doneResult (addTags r u) = Some x"
  by (simp_all add: addTags_def settle_frame partUploads_append)


lemma resumeMain_frame:
  "aborted (resumeMain u) = aborted u"
  "onabort (resumeMain u) = onabort u"
  "partUploads (sent (resumeMain u)) = partUploads (sent u)"
  by (simp_all add: resumeMain_def Let_def settle_frame addTags_frame partUploads_append
      split: mainpc.splits option.splits sum.splits)

lemma resumeMain_settled:
  "doneResult u = Some x \<Longrightarrow> doneResult (resumeMain u) = Some x"
  by (simp add: resumeMain_def Let_def settle_frame addTags_frame
      split: mainpc.splits option.splits sum.splits)

lemma resumeMain_aborted:
  "aborted u \<Longrightarrow> uploadedParts (resumeMain u) = uploadedParts u"
  by (simp add: resumeMain_def Let_def settle_frame addTags_frame
      split: mainpc.splits option.splits sum.splits)


lemma abort_frame:
  "aborted (abort u)"
  "uploadedParts (abort u) = uploadedParts u"
  "sent (abort u) = sent u"
  "doneResult u = Some x \<Longrightarrow> doneResult (abort u) = Some x"
  "onabort u \<Longrightarrow> doneResult u = None \<Longrightarrow> doneResult (abort u) = Some (Inl AbortError)"
  by (simp_all add: abort_def)

subsection \<open>After an abort\<close>

text \<open>
  Once the flag is set no step records a part and no step sends the upload of a part;
  what \<^verbatim>\<open>done()\<close> has settled to stays.
\<close>

lemma step_aborted:
  assumes "aborted u"
  shows "aborted (step ev u)"
    and "uploadedParts (step ev u) = uploadedParts u"
    and "partUploads (sent (step ev u)) = partUploads (sent u)"
  using assms
  by (cases ev; simp add: abort_frame resume_frame resume_aborted resumeMain_frame
      resumeMain_aborted)+

lemma run_aborted:
  assumes "aborted u"
  shows "uploadedParts (run evs u) = uploadedParts u
       \<and> partUploads (sent (run evs u)) = partUploads (sent u)"
  using assms by (induction evs arbitrary: u) (simp_all add: step_aborted)

lemma step_settled:
  "doneResult u = Some x \<Longrightarrow> doneResult (step ev u) = Some x"
  by (cases ev) (simp_all add: abort_frame resume_frame resumeMain_settled)

lemma run_settled:
  "doneResult u = Some x \<Longrightarrow> doneResult (run evs u) = Some x"
  by (induction evs arbitrary: u) (simp_all add: step_settled)

text \<open>While \<^verbatim>\<open>done()\<close> is pending, the handler that rejects its race is still set.\<close>

lemma step_armed:
  assumes "doneResult u = None \<longrightarrow> onabort u"
  shows "doneResult (step ev u) = None \<longrightarrow> onabort (step ev u)"
proof (cases ev)
  case Abort
  then show ?thesis using assms by (cases "doneResult u") (simp_all add: abort_frame)
next
  case (Resume i)
  then show ?thesis using assms by (simp add: resume_frame)
next
  case ResumeMain
  then show ?thesis using assms resumeMain_settled [of u]
    by (cases "doneResult u") (simp_all add: resumeMain_frame)
qed

lemma run_armed:
  assumes "doneResult u = None \<longrightarrow> onabort u"
  shows "doneResult (run evs u) = None \<longrightarrow> onabort (run evs u)"
  using assms
proof (induction evs arbitrary: u)
  case Nil
  then show ?case by simp
next
  case (Cons ev evs)
  from Cons.prems have "doneResult (step ev u) = None \<longrightarrow> onabort (step ev u)"
    by (rule step_armed)
  then show ?case using Cons.IH by simp
qed

lemma Upload_done_armed: "onabort (Upload_done getChunk u)"
  by (simp add: Upload_done_def Let_def)

subsection \<open>An abort before the upload starts\<close>

lemma spawn_frame:
  "aborted (spawn n u) = aborted u"
  "firstRejection (spawn n u) = firstRejection u"
  "uploadedParts (spawn n u) = uploadedParts u"
  "sent (spawn n u) = sent u"
  "mainpc (spawn n u) = mainpc u"
  "doneResult (spawn n u) = doneResult u"
  by (induction n arbitrary: u; simp add: callNext_def Let_def split: list.splits)+

lemma spawn_uploaders:
  "list_all (\<lambda>at. case at of AwaitNext v \<Rightarrow> True | Finished None \<Rightarrow> True | _ \<Rightarrow> False)
     (concurrentUploaders u)
   \<Longrightarrow> list_all (\<lambda>at. case at of AwaitNext v \<Rightarrow> True | Finished None \<Rightarrow> True | _ \<Rightarrow> False)
     (concurrentUploaders (spawn n u))"
  by (induction n arbitrary: u) (simp_all add: callNext_def Let_def split: list.splits)

lemma Upload_constructor_fresh:
  assumes "Upload_constructor options = Inr u"
  shows "\<not> aborted u \<and> firstRejection u = None \<and> uploadedParts u = [] \<and> sent u = []
         \<and> concurrentUploaders u = [] \<and> mainpc u = NotStarted \<and> doneResult u = None
         \<and> \<not> onabort u"
proof -
  have "case Upload_constructor options of
          Inl e \<Rightarrow> True
        | Inr u \<Rightarrow> \<not> aborted u \<and> firstRejection u = None \<and> uploadedParts u = [] \<and> sent u = []
           \<and> concurrentUploaders u = [] \<and> mainpc u = NotStarted \<and> doneResult u = None
           \<and> \<not> onabort u"
    unfolding Upload_constructor_def Let_def by (simp split: option.splits)
  with assms show ?thesis by simp
qed


lemma cancelledAtStart_done:
  assumes "Upload_constructor options = Inr u"
  shows "cancelledAtStart (Upload_done getChunk (abort u))"
  using Upload_constructor_fresh [OF assms]
  by (simp add: cancelledAtStart_def Upload_done_def Let_def spawn_frame spawn_uploaders abort_def)


lemma list_all_update:
  "list_all P xs \<Longrightarrow> P x \<Longrightarrow> list_all P (xs[i := x])"
  by (induction xs arbitrary: i) (auto split: nat.splits)

lemma cancelledAtStart_resume:
  assumes "cancelledAtStart u"
  shows "cancelledAtStart (resume i u)"
proof (cases "i < length (concurrentUploaders u)")
  case False
  then show ?thesis using assms by (simp add: resume_def)
next
  case True
  from assms have all: "list_all (\<lambda>at. case at of AwaitNext v \<Rightarrow> True | Finished None \<Rightarrow> True | _ \<Rightarrow> False)
           (concurrentUploaders u)"
    by (simp add: cancelledAtStart_def)
  with True have at: "case concurrentUploaders u ! i of AwaitNext v \<Rightarrow> True | Finished None \<Rightarrow> True | _ \<Rightarrow> False"
    by (simp add: list_all_length)
  show ?thesis
  proof (cases "concurrentUploaders u ! i")
    case (AwaitNext v)
    show ?thesis
    proof (cases v)
      case None
      with AwaitNext True assms show ?thesis
        by (simp add: resume_def resumeAt_def noteRejection_def cancelledAtStart_def list_all_update)
    next
      case (Some p)
      with AwaitNext True assms show ?thesis
        by (simp add: resume_def resumeAt_def loopBody_def leaveLoop_def noteRejection_def
            cancelledAtStart_def list_all_update MAX_PARTS_def)
    qed
  next
    case (Finished r)
    with True assms show ?thesis by (simp add: resume_def)
  qed (use at in simp_all)
qed


lemma cancelledAtStart_resumeMain:
  assumes "cancelledAtStart u"
  shows "cancelledAtStart (resumeMain u)"
  using assms
  by (auto simp: cancelledAtStart_def resumeMain_def settle_def)

lemma cancelledAtStart_abort:
  assumes "cancelledAtStart u"
  shows "cancelledAtStart (abort u)"
  using assms by (auto simp: cancelledAtStart_def abort_def)

lemma cancelledAtStart_run:
  assumes "cancelledAtStart u"
  shows "cancelledAtStart (run evs u)"
  using assms
proof (induction evs arbitrary: u)
  case Nil
  then show ?case by simp
next
  case (Cons ev evs)
  have "cancelledAtStart (step ev u)"
    using Cons.prems
    by (cases ev) (simp_all add: cancelledAtStart_resume cancelledAtStart_resumeMain cancelledAtStart_abort)
  then show ?case using Cons.IH by simp
qed

lemma run_append: "run (xs @ ys) u = run ys (run xs u)"
  by (induction xs arbitrary: u) simp_all

lemma resume_mainpc: "mainpc (resume i u) = mainpc u"
proof -
  have n: "\<And>pr v. mainpc (notifyProgress pr v) = mainpc v" by (simp add: notifyProgress_def)
  have c: "\<And>v. mainpc (snd (callNext v)) = mainpc v" by (simp add: callNext_def split: list.splits)
  have l: "\<And>r v. mainpc (snd (leaveLoop r v)) = mainpc v" by (simp add: leaveLoop_def)
  have k: "\<And>e v. mainpc (snd (catchBlock e v)) = mainpc v" by (simp add: catchBlock_def c l)
  have s: "\<And>p v. mainpc (snd (sendUploadPart p v)) = mainpc v" by (simp add: sendUploadPart_def)
  have "\<And>at. mainpc (snd (resumeAt at u)) = mainpc u"
    by (simp add: resumeAt_def loopBody_def afterPut_def afterCreate_def afterPart_def Let_def
        n c l k s split: pc.splits option.splits sum.splits)
  then show ?thesis
    by (simp add: resume_def noteRejection_def case_prod_beta Let_def split: pc.splits option.splits)
qed

lemma cancelledAtStart_resume_finishes:
  assumes "cancelledAtStart u" and "i < length (concurrentUploaders u)"
  shows "concurrentUploaders (resume i u) = (concurrentUploaders u)[i := Finished None]"
proof -
  from assms have at: "case concurrentUploaders u ! i of AwaitNext v \<Rightarrow> True | Finished None \<Rightarrow> True | _ \<Rightarrow> False"
    by (simp add: cancelledAtStart_def list_all_length)
  show ?thesis
  proof (cases "concurrentUploaders u ! i")
    case (AwaitNext v)
    with assms show ?thesis
      by (cases v) (simp_all add: resume_def resumeAt_def loopBody_def leaveLoop_def
          noteRejection_def cancelledAtStart_def MAX_PARTS_def)
  next
    case (Finished r)
    with at have "r = None" by (cases r) simp_all
    with Finished have "(concurrentUploaders u)[i := Finished None] = concurrentUploaders u"
      by (metis list_update_id)
    with Finished assms(2) show ?thesis
      by (simp add: resume_def)
  qed (use at in simp_all)
qed

lemma cancelledAtStart_all_finish:
  assumes "cancelledAtStart u" and "k \<le> length (concurrentUploaders u)"
  shows "concurrentUploaders (run (map Resume [0..<k]) u)
           = replicate k (Finished None) @ drop k (concurrentUploaders u)"
  using assms(2)
proof (induction k)
  case 0
  then show ?case by simp
next
  case (Suc k)
  let ?v = "run (map Resume [0..<k]) u"
  have c: "cancelledAtStart ?v" using assms(1) by (rule cancelledAtStart_run)
  from Suc have ih: "concurrentUploaders ?v = replicate k (Finished None) @ drop k (concurrentUploaders u)"
    by simp
  with Suc.prems have len: "k < length (concurrentUploaders ?v)" by simp
  have "concurrentUploaders (run (map Resume [0..<Suc k]) u) = concurrentUploaders (resume k ?v)"
    by (simp add: run_append)
  also have "\<dots> = (concurrentUploaders ?v)[k := Finished None]"
    using c len by (rule cancelledAtStart_resume_finishes)
  also have "\<dots> = replicate (Suc k) (Finished None) @ drop (Suc k) (concurrentUploaders u)"
    using Suc.prems
    by (simp add: ih list_update_append replicate_app_Cons_same
        Cons_nth_drop_Suc [symmetric])
  finally show ?case .
qed


lemma run_resumes_mainpc: "mainpc (run (map Resume is) u) = mainpc u"
  by (induction "is" arbitrary: u) (simp_all add: resume_mainpc)

lemma abort_before_done_settles:
  assumes "Upload_constructor options = Inr u"
  shows "doneResult (run (map Resume [0..<nat (Upload.queueSize u)] @ [ResumeMain])
                       (Upload_done getChunk (abort u)))
           = Some (Inl AbortError)"
proof -
  let ?s = "Upload_done getChunk (abort u)"
  let ?n = "nat (Upload.queueSize u)"
  let ?t = "run (map Resume [0..<?n]) ?s"
  have fresh: "concurrentUploaders u = []" using Upload_constructor_fresh [OF assms] by simp
  have len_spawn: "\<And>n v. length (concurrentUploaders (spawn n v)) = length (concurrentUploaders v) + n"
  proof -
    fix n v show "length (concurrentUploaders (spawn n v)) = length (concurrentUploaders v) + n"
      by (induction n arbitrary: v) (simp_all add: callNext_def Let_def split: list.splits)
  qed
  have len: "length (concurrentUploaders ?s) = ?n"
    using fresh by (simp add: Upload_done_def Let_def len_spawn abort_def)
  have c: "cancelledAtStart ?s" using assms by (rule cancelledAtStart_done)
  have ct: "cancelledAtStart ?t" using c by (rule cancelledAtStart_run)
  have ups: "concurrentUploaders ?t = replicate ?n (Finished None)"
    using cancelledAtStart_all_finish [OF c, of ?n] len by simp
  have pc0: "mainpc ?t = AwaitUploaders"
    by (simp add: run_resumes_mainpc Upload_done_def Let_def)
  have "doneResult (resumeMain ?t) = Some (Inl AbortError)"
    using ct ups pc0
    by (auto simp: cancelledAtStart_def resumeMain_def settle_def list_all_length)
  then show ?thesis by (simp add: run_append)
qed

subsection \<open>One uploader, part after part\<close>

lemma resume_awaitPart:
  assumes "concurrentUploaders u = [AwaitPart p]" and "\<not> aborted u"
    and "\<not> isl (uploadPart (client u) (uploadId u) (partNumber p) (data p))"
  shows "concurrentUploaders (resume 0 u)
           = [case feeder u of [] \<Rightarrow> AwaitNext None | q # qs \<Rightarrow> AwaitNext (Some q)]
       \<and> feeder (resume 0 u) = tl (feeder u)
       \<and> length (uploadedParts (resume 0 u)) = Suc (length (uploadedParts u))
       \<and> aborted (resume 0 u) = aborted u \<and> uploadId (resume 0 u) = uploadId u
       \<and> client (resume 0 u) = client u \<and> firstRejection (resume 0 u) = firstRejection u
       \<and> isMultiPart (resume 0 u) = isMultiPart u \<and> tags (resume 0 u) = tags u
       \<and> mainpc (resume 0 u) = mainpc u \<and> doneResult (resume 0 u) = doneResult u"
  using assms
  by (cases "uploadPart (client u) (uploadId u) (partNumber p) (data p)")
     (simp_all add: resume_def resumeAt_def afterPart_def Let_def notifyProgress_def callNext_def
        noteRejection_def split: list.splits)


lemma resume_awaitNext_Some:
  assumes "concurrentUploaders u = [AwaitNext (Some q)]" and "\<not> aborted u"
    and "truthyStr (uploadId u)" and "length (uploadedParts u) \<le> MAX_PARTS"
    and "\<not> (partNumber q = 1 \<and> lastPart q = Some True)"
  shows "concurrentUploaders (resume 0 u) = [AwaitPart q]
       \<and> feeder (resume 0 u) = feeder u
       \<and> uploadedParts (resume 0 u) = uploadedParts u
       \<and> aborted (resume 0 u) = aborted u \<and> uploadId (resume 0 u) = uploadId u
       \<and> client (resume 0 u) = client u \<and> firstRejection (resume 0 u) = firstRejection u
       \<and> isMultiPart (resume 0 u) = isMultiPart u \<and> tags (resume 0 u) = tags u
       \<and> mainpc (resume 0 u) = mainpc u \<and> doneResult (resume 0 u) = doneResult u"
  using assms
  by (auto simp: resume_def resumeAt_def loopBody_def sendUploadPart_def noteRejection_def)

lemma resume_awaitNext_None:
  assumes "concurrentUploaders u = [AwaitNext None]"
  shows "resume 0 u = u\<lparr>concurrentUploaders := [Finished None]\<rparr>"
  using assms by (simp add: resume_def resumeAt_def noteRejection_def)


lemma run_replicate_Suc2:
  "run (replicate (2 * Suc n + 2) ev) u = run (replicate (2 * n + 2) ev) (step ev (step ev u))"
  by simp

lemma sequential_parts:
  assumes "concurrentUploaders u = [AwaitPart p]" and "feeder u = rest" and "\<not> aborted u"
    and "truthyStr (uploadId u)"
    and "\<And>uid n d. \<not> isl (uploadPart (client u) uid n d)"
    and "\<forall>q \<in> set rest. \<not> (partNumber q = 1 \<and> lastPart q = Some True)"
    and "length (uploadedParts u) + length rest \<le> MAX_PARTS"
  shows "concurrentUploaders (run (replicate (2 * length rest + 2) (Resume 0)) u) = [Finished None]
       \<and> length (uploadedParts (run (replicate (2 * length rest + 2) (Resume 0)) u))
           = length (uploadedParts u) + length rest + 1
       \<and> aborted (run (replicate (2 * length rest + 2) (Resume 0)) u) = aborted u
       \<and> uploadId (run (replicate (2 * length rest + 2) (Resume 0)) u) = uploadId u
       \<and> client (run (replicate (2 * length rest + 2) (Resume 0)) u) = client u
       \<and> firstRejection (run (replicate (2 * length rest + 2) (Resume 0)) u) = firstRejection u
       \<and> isMultiPart (run (replicate (2 * length rest + 2) (Resume 0)) u) = isMultiPart u
       \<and> tags (run (replicate (2 * length rest + 2) (Resume 0)) u) = tags u
       \<and> mainpc (run (replicate (2 * length rest + 2) (Resume 0)) u) = mainpc u
       \<and> doneResult (run (replicate (2 * length rest + 2) (Resume 0)) u) = doneResult u"
  using assms
proof (induction rest arbitrary: u p)
  case Nil
  let ?u1 = "resume 0 u"
  have ok: "\<not> isl (uploadPart (client u) (uploadId u) (partNumber p) (data p))"
    by (rule Nil.prems(5))
  note s1 = resume_awaitPart [OF Nil.prems(1) Nil.prems(3) ok]
  from s1 Nil.prems(2) have at: "concurrentUploaders ?u1 = [AwaitNext None]" by simp
  have "run (replicate (2 * length ([]::RawDataPart list) + 2) (Resume 0)) u = resume 0 ?u1"
    by (simp add: numeral_2_eq_2)
  also have "\<dots> = ?u1\<lparr>concurrentUploaders := [Finished None]\<rparr>"
    using at by (rule resume_awaitNext_None)
  finally show ?case using s1 by simp
next
  case (Cons q rest)
  let ?u1 = "resume 0 u"
  let ?u2 = "resume 0 ?u1"
  have ok: "\<not> isl (uploadPart (client u) (uploadId u) (partNumber p) (data p))"
    by (rule Cons.prems(5))
  note s1 = resume_awaitPart [OF Cons.prems(1) Cons.prems(3) ok]
  from s1 Cons.prems(2) have at1: "concurrentUploaders ?u1 = [AwaitNext (Some q)]"
    and f1: "feeder ?u1 = rest" by simp_all
  from s1 Cons.prems(3) have na1: "\<not> aborted ?u1" by simp
  from s1 Cons.prems(4) have id1: "truthyStr (uploadId ?u1)" by simp
  from s1 Cons.prems(7) have len1: "length (uploadedParts ?u1) \<le> MAX_PARTS" by simp
  from Cons.prems(6) have nq: "\<not> (partNumber q = 1 \<and> lastPart q = Some True)" by simp
  note s2 = resume_awaitNext_Some [OF at1 na1 id1 len1 nq]
  from s2 have at2: "concurrentUploaders ?u2 = [AwaitPart q]" by simp
  from s2 f1 have f2: "feeder ?u2 = rest" by simp
  from s2 na1 have na2: "\<not> aborted ?u2" by simp
  from s2 id1 have id2: "truthyStr (uploadId ?u2)" by simp
  from s2 s1 Cons.prems(5) have ok2: "\<And>uid n d. \<not> isl (uploadPart (client ?u2) uid n d)" by simp
  from Cons.prems(6) have rest: "\<forall>q \<in> set rest. \<not> (partNumber q = 1 \<and> lastPart q = Some True)"
    by simp
  from s1 s2 Cons.prems(7) have len2: "length (uploadedParts ?u2) + length rest \<le> MAX_PARTS"
    by simp
  note ih = Cons.IH [OF at2 f2 na2 id2 ok2 rest len2]
  have "run (replicate (2 * length (q # rest) + 2) (Resume 0)) u
          = run (replicate (2 * length rest + 2) (Resume 0)) ?u2"
    by simp
  then show ?case using ih s1 s2 by simp
qed

lemma exampleUpload_constructed:
  assumes "1 \<le> q"
  shows "Upload_constructor (exampleOptions q content) = Inr (exampleUpload q content)"
proof -
  have "\<not> isl (Upload_constructor (exampleOptions q content))"
    using assms by (simp add: Upload_constructor_def exampleOptions_def Let_def)
  then show ?thesis by (simp add: exampleUpload_def)
qed

lemma exampleUpload_fields:
  assumes "1 \<le> q"
  shows "Upload.queueSize (exampleUpload q content) = q" and "client (exampleUpload q content) = exampleS3"
    and "tags (exampleUpload q content) = []" and "isMultiPart (exampleUpload q content)"
    and "uploadId (exampleUpload q content) = None" and "\<not> createMultiPartPromise (exampleUpload q content)"
  using assms
  by (simp_all add: exampleUpload_def Upload_constructor_def exampleOptions_def Let_def)


lemma upload_start:
  assumes "getChunk (Body (params (exampleUpload 1 content))) (partSize (exampleUpload 1 content)) = p1 # rest"
    and "\<not> (partNumber p1 = 1 \<and> lastPart p1 = Some True)"
  shows "concurrentUploaders (run [Resume 0, Resume 0] (Upload_done getChunk (exampleUpload 1 content)))
           = [AwaitPart p1]
       \<and> feeder (run [Resume 0, Resume 0] (Upload_done getChunk (exampleUpload 1 content))) = rest
       \<and> \<not> aborted (run [Resume 0, Resume 0] (Upload_done getChunk (exampleUpload 1 content)))
       \<and> uploadId (run [Resume 0, Resume 0] (Upload_done getChunk (exampleUpload 1 content)))
           = Some ''upload-1''
       \<and> client (run [Resume 0, Resume 0] (Upload_done getChunk (exampleUpload 1 content))) = exampleS3
       \<and> uploadedParts (run [Resume 0, Resume 0] (Upload_done getChunk (exampleUpload 1 content))) = []
       \<and> firstRejection (run [Resume 0, Resume 0] (Upload_done getChunk (exampleUpload 1 content))) = None
       \<and> isMultiPart (run [Resume 0, Resume 0] (Upload_done getChunk (exampleUpload 1 content)))
       \<and> tags (run [Resume 0, Resume 0] (Upload_done getChunk (exampleUpload 1 content))) = []
       \<and> mainpc (run [Resume 0, Resume 0] (Upload_done getChunk (exampleUpload 1 content))) = AwaitUploaders
       \<and> doneResult (run [Resume 0, Resume 0] (Upload_done getChunk (exampleUpload 1 content))) = None"
proof -
  have one: "(1::int) \<le> 1" by simp
  note fresh = Upload_constructor_fresh [OF exampleUpload_constructed [OF one]]
  note fields = exampleUpload_fields [OF one]
  show ?thesis
    using assms fresh fields
    by (auto simp add: Upload_done_def Let_def callNext_def resume_def resumeAt_def loopBody_def
        afterCreate_def sendUploadPart_def noteRejection_def truthyStr_def MAX_PARTS_def
        exampleS3_def)
qed


lemma upload_all_parts:
  assumes g: "getChunk (Body (params (exampleUpload 1 content))) (partSize (exampleUpload 1 content)) = p1 # rest"
    and p1: "\<not> (partNumber p1 = 1 \<and> lastPart p1 = Some True)"
    and rest: "\<forall>q \<in> set rest. \<not> (partNumber q = 1 \<and> lastPart q = Some True)"
    and len: "length rest \<le> MAX_PARTS"
  shows "length (uploadedParts
           (run (replicate (2 * length rest + 4) (Resume 0) @ [ResumeMain, ResumeMain])
              (Upload_done getChunk (exampleUpload 1 content)))) = length rest + 1
       \<and> doneResult
           (run (replicate (2 * length rest + 4) (Resume 0) @ [ResumeMain, ResumeMain])
              (Upload_done getChunk (exampleUpload 1 content))) = Some (Inr (CompleteOutput ''completed''))"
proof -
  let ?s2 = "run [Resume 0, Resume 0] (Upload_done getChunk (exampleUpload 1 content))"
  let ?s3 = "run (replicate (2 * length rest + 2) (Resume 0)) ?s2"
  note st = upload_start [where getChunk = getChunk and content = content and ?p1.0 = p1
      and rest = rest, OF g p1]
  from st have at: "concurrentUploaders ?s2 = [AwaitPart p1]" and f: "feeder ?s2 = rest"
    and na: "\<not> aborted ?s2" by simp_all
  from st have uid: "truthyStr (uploadId ?s2)" by (simp add: truthyStr_def)
  from st have ok: "\<And>uid n d. \<not> isl (uploadPart (client ?s2) uid n d)"
    by (simp add: exampleS3_def)
  from st len have l: "length (uploadedParts ?s2) + length rest \<le> MAX_PARTS" by simp
  note fin = sequential_parts [OF at f na uid ok rest l]
  have split: "replicate (2 * length rest + 4) (Resume 0)
                 = [Resume 0, Resume 0] @ replicate (2 * length rest + 2) (Resume 0)"
  proof -
    have "2 * length rest + 4 = Suc (Suc (2 * length rest + 2))" by simp
    then show ?thesis by (simp only: replicate_Suc append_Cons append_Nil)
  qed
  have whole: "run (replicate (2 * length rest + 4) (Resume 0) @ [ResumeMain, ResumeMain])
                 (Upload_done getChunk (exampleUpload 1 content))
               = resumeMain (resumeMain ?s3)"
    unfolding split by (simp only: run_append run.simps step.simps)
  from fin st have pcs: "concurrentUploaders ?s3 = [Finished None]"
    and n: "length (uploadedParts ?s3) = length rest + 1"
    and ctl: "\<not> aborted ?s3" "firstRejection ?s3 = None" "isMultiPart ?s3" "tags ?s3 = []"
      "mainpc ?s3 = AwaitUploaders" "doneResult ?s3 = None" "client ?s3 = exampleS3"
    by simp_all
  let ?s4 = "resumeMain ?s3"
  from pcs ctl have m1: "mainpc ?s4 = AwaitComplete" "doneResult ?s4 = None" "tags ?s4 = []"
    "client ?s4 = exampleS3" "uploadedParts ?s4 = sort_key PartNumber (uploadedParts ?s3)"
    by (simp_all add: resumeMain_def Let_def)
  from m1 have m2: "doneResult (resumeMain ?s4) = Some (Inr (CompleteOutput ''completed''))"
    "uploadedParts (resumeMain ?s4) = uploadedParts ?s4"
    by (simp_all add: resumeMain_def addTags_def settle_def exampleS3_def)
  from m1 m2 n show ?thesis unfolding whole by simp
qed


lemma manyParts_Cons:
  assumes "0 < n"
  shows "manyParts n
           = \<lparr>partNumber = 1, data = replicate (if 1 = n then 1 else MIN_PART_SIZE) 0,
              lastPart = (if 1 = n then Some True else None)\<rparr>
             # map (\<lambda>i. \<lparr>partNumber = i, data = replicate (if i = n then 1 else MIN_PART_SIZE) 0,
                         lastPart = (if i = n then Some True else None)\<rparr>) [2..<Suc n]"
proof -
  have "[1..<Suc n] = 1 # [2..<Suc n]"
    using assms by (simp add: upt_conv_Cons numeral_2_eq_2)
  then show ?thesis by (simp add: manyParts_def)
qed


text \<open>The parts of the example are the example body, cut at the part size.\<close>

lemma concat_replicate_const:
  "concat (map (\<lambda>i. replicate m x) xs) = replicate (length xs * m) x"
  by (induction xs) (simp_all add: replicate_add)

lemma manyParts_concat:
  assumes "0 < n"
  shows "Some (concat (map data (manyParts n))) = exampleBody n"
proof -
  have split: "[1..<Suc n] = [1..<n] @ [n]"
    using assms by simp
  have "map (\<lambda>i. replicate (if i = n then 1 else MIN_PART_SIZE) (0::8 word)) [1..<n]
          = map (\<lambda>i. replicate MIN_PART_SIZE 0) [1..<n]"
    by (rule map_cong) simp_all
  then have "concat (map (\<lambda>i. replicate (if i = n then 1 else MIN_PART_SIZE) (0::8 word)) [1..<n])
          = replicate ((n - 1) * MIN_PART_SIZE) 0"
    by (simp only: concat_replicate_const length_upt)
  then show ?thesis
    unfolding manyParts_def exampleBody_def split
    by (simp add: comp_def replicate_add [symmetric] del: replicate_Suc)
qed

lemma upload_manyParts:
  assumes "1 < n" and "n \<le> Suc MAX_PARTS"
  shows "length (uploadedParts
           (run (replicate (2 * (n - 1) + 4) (Resume 0) @ [ResumeMain, ResumeMain])
              (Upload_done (\<lambda>b size. manyParts n) (exampleUpload 1 content)))) = n
       \<and> doneResult
           (run (replicate (2 * (n - 1) + 4) (Resume 0) @ [ResumeMain, ResumeMain])
              (Upload_done (\<lambda>b size. manyParts n) (exampleUpload 1 content)))
           = Some (Inr (CompleteOutput ''completed''))"
proof -
  define f where "f = (\<lambda>i. \<lparr>partNumber = i, data = replicate (if i = n then 1 else MIN_PART_SIZE) 0,
                         lastPart = (if i = n then Some True else None)\<rparr>)"
  define rest where "rest = map f [2..<Suc n]"
  have g: "(\<lambda>b size. manyParts n) (Body (params (exampleUpload 1 content))) (partSize (exampleUpload 1 content))
             = f 1 # rest"
    unfolding rest_def f_def using manyParts_Cons [of n] assms(1) by simp
  have p1: "\<not> (partNumber (f 1) = 1 \<and> lastPart (f 1) = Some True)"
    using assms(1) by (simp add: f_def)
  have r: "\<forall>q \<in> set rest. \<not> (partNumber q = 1 \<and> lastPart q = Some True)"
    unfolding rest_def by (auto simp: f_def)
  have len: "length rest = n - 1"
    unfolding rest_def using assms(1) by simp
  then have le: "length rest \<le> MAX_PARTS" using assms(2) by simp
  from upload_all_parts [where getChunk = "\<lambda>b size. manyParts n" and content = content
      and ?p1.0 = "f 1" and rest = rest, OF g p1 r le] len assms(1)
  show ?thesis by simp
qed

text \<open>
  Claim C2 says that the number of committed parts never exceeds the limit of 10,000
  and that an input that needs more parts makes the upload fail. The loop rejects a
  part only when more than \<^verbatim>\<open>MAX_PARTS\<close> parts are recorded already: with one uploader
  and a body of 10,001 parts, every command accepted, all 10,001 parts are uploaded and
  recorded and \<^verbatim>\<open>done()\<close> resolves with the output of the completing command.
\<close>

theorem upload_commits_10001_parts:
  "length (uploadedParts
     (run (replicate 20004 (Resume 0) @ [ResumeMain, ResumeMain])
        (Upload_done (\<lambda>b size. manyParts 10001) (exampleUpload 1 (exampleBody 10001))))) = 10001
   \<and> doneResult
       (run (replicate 20004 (Resume 0) @ [ResumeMain, ResumeMain])
          (Upload_done (\<lambda>b size. manyParts 10001) (exampleUpload 1 (exampleBody 10001))))
       = Some (Inr (CompleteOutput ''completed''))
   \<and> MAX_PARTS = 10000"
proof -
  have a: "(1::nat) < 10001" by simp
  have b: "(10001::nat) \<le> Suc MAX_PARTS" by (simp add: MAX_PARTS_def)
  have c: "2 * (10001 - 1) + 4 = (20004::nat)" by simp
  from upload_manyParts [OF a b] show ?thesis
    unfolding c by (simp only: MAX_PARTS_def simp_thms)
qed

subsection \<open>Cancellation\<close>

text \<open>
  Claim C8: once \<^verbatim>\<open>abort()\<close> is called on an upload, whatever the uploaders and the top
  level do afterwards and in whatever order, no part is recorded any more (an upload of
  a part that is in flight completes, its result is dropped), no upload of a part is
  sent any more, and \<^verbatim>\<open>done()\<close>, unless it had settled before the abort, is rejected
  with the error named \<^verbatim>\<open>AbortError\<close>. When \<^verbatim>\<open>abort()\<close> is called on a new upload
  before \<^verbatim>\<open>done()\<close>, nothing is uploaded, \<^verbatim>\<open>done()\<close> can only be rejected with that
  error, and it is once every uploader and then the top level have run.
\<close>

theorem abort_stops_upload:
  "(let u1 = run before (Upload_done getChunk u0);
        u2 = run (Abort # after) u1
    in uploadedParts u2 = uploadedParts u1
       \<and> partUploads (sent u2) = partUploads (sent u1)
       \<and> (doneResult u1 = None \<longrightarrow> doneResult u2 = Some (Inl AbortError)))
   \<and> (Upload_constructor options = Inr u0 \<longrightarrow>
       (let u3 = run after (Upload_done getChunk (abort u0))
        in uploadedParts u3 = [] \<and> partUploads (sent u3) = []
           \<and> (doneResult u3 = None \<or> doneResult u3 = Some (Inl AbortError)))
       \<and> doneResult (run (map Resume [0..<nat (Upload.queueSize u0)] @ [ResumeMain])
                        (Upload_done getChunk (abort u0)))
           = Some (Inl AbortError))"
proof (intro conjI impI)
  define u1 where "u1 = run before (Upload_done getChunk u0)"
  have armed: "doneResult u1 = None \<longrightarrow> onabort u1"
    unfolding u1_def by (rule run_armed) (simp add: Upload_done_armed)
  have a: "aborted (abort u1)" by (rule abort_frame)
  have parts: "uploadedParts (run after (abort u1)) = uploadedParts u1"
    using run_aborted [OF a, of after] by (simp add: abort_frame)
  have cmds: "partUploads (sent (run after (abort u1))) = partUploads (sent u1)"
    using run_aborted [OF a, of after] by (simp add: abort_frame)
  have res: "doneResult u1 = None \<longrightarrow> doneResult (run after (abort u1)) = Some (Inl AbortError)"
    using armed by (auto intro: run_settled abort_frame)
  from parts cmds res
  show "let u1 = run before (Upload_done getChunk u0);
        u2 = run (Abort # after) u1
    in uploadedParts u2 = uploadedParts u1
       \<and> partUploads (sent u2) = partUploads (sent u1)
       \<and> (doneResult u1 = None \<longrightarrow> doneResult u2 = Some (Inl AbortError))"
    by (simp add: u1_def [symmetric] Let_def)
next
  assume fresh: "Upload_constructor options = Inr u0"
  have "cancelledAtStart (run after (Upload_done getChunk (abort u0)))"
    by (rule cancelledAtStart_run) (rule cancelledAtStart_done [OF fresh])
  then show "let u3 = run after (Upload_done getChunk (abort u0))
        in uploadedParts u3 = [] \<and> partUploads (sent u3) = []
           \<and> (doneResult u3 = None \<or> doneResult u3 = Some (Inl AbortError))"
    by (simp add: cancelledAtStart_def Let_def)
next
  assume fresh: "Upload_constructor options = Inr u0"
  then show "doneResult (run (map Resume [0..<nat (Upload.queueSize u0)] @ [ResumeMain])
                        (Upload_done getChunk (abort u0)))
           = Some (Inl AbortError)"
    by (rule abort_before_done_settles)
qed

theorem abort_stops_upload_witness:
  "Upload_constructor (exampleOptions 2 (exampleBody 3)) = Inr (exampleUpload 2 (exampleBody 3))
   \<and> doneResult (run [Resume 0, Resume 1, Resume 0]
                    (Upload_done (\<lambda>b size. manyParts 3) (exampleUpload 2 (exampleBody 3)))) = None
   \<and> doneResult (run (Abort # [Resume 1, Resume 0, Resume 1, ResumeMain])
                    (run [Resume 0, Resume 1, Resume 0]
                       (Upload_done (\<lambda>b size. manyParts 3) (exampleUpload 2 (exampleBody 3)))))
       = Some (Inl AbortError)
   \<and> uploadedParts (run (Abort # [Resume 1, Resume 0, Resume 1, ResumeMain])
                       (run [Resume 0, Resume 1, Resume 0]
                          (Upload_done (\<lambda>b size. manyParts 3) (exampleUpload 2 (exampleBody 3)))))
       = uploadedParts (run [Resume 0, Resume 1, Resume 0]
                          (Upload_done (\<lambda>b size. manyParts 3) (exampleUpload 2 (exampleBody 3))))
   \<and> doneResult (run (map Resume [0..<nat (Upload.queueSize (exampleUpload 2 (exampleBody 3)))] @ [ResumeMain])
                    (Upload_done (\<lambda>b size. manyParts 3) (abort (exampleUpload 2 (exampleBody 3)))))
       = Some (Inl AbortError)"
proof -
  have two: "(1::int) \<le> 2" by simp
  have c: "Upload_constructor (exampleOptions 2 (exampleBody 3)) = Inr (exampleUpload 2 (exampleBody 3))"
    using two by (rule exampleUpload_constructed)
  have "doneResult (exampleUpload 2 (exampleBody 3)) = None"
    using Upload_constructor_fresh [OF c] by simp
  then have n: "doneResult (run [Resume 0, Resume 1, Resume 0]
                    (Upload_done (\<lambda>b size. manyParts 3) (exampleUpload 2 (exampleBody 3)))) = None"
    by (simp add: resume_frame Upload_done_def Let_def spawn_frame)
  from abort_stops_upload [of "[Resume 0, Resume 1, Resume 0]" "\<lambda>b size. manyParts 3"
      "exampleUpload 2 (exampleBody 3)" "[Resume 1, Resume 0, Resume 1, ResumeMain]" "exampleOptions 2 (exampleBody 3)"] c n
  show ?thesis by (simp only: Let_def simp_thms)
qed

end
